theory Spec2Isabelle
  imports Main
begin

section \<open>Rows of the store\<close>

text \<open>
  The row types of \<^verbatim>\<open>@shared/schema\<close> are not part of the sources at hand; the
  records below carry the columns that \<^verbatim>\<open>storage.ts\<close> and \<^verbatim>\<open>routes.ts\<close>
  read and write. Ids and timestamps are natural numbers. The asset counter is a natural
  number as well: \<^verbatim>\<open>createCompany\<close> starts it at 1 and the only write to it adds 1
  (JavaScript adds 1 exactly below \<open>2\<^sup>5\<^sup>3\<close> and prints such integers in plain
  decimal; the model has no upper bound). The department
  counters are integers, because the deletion path computes \<^verbatim>\<open>x - 1\<close> and
  \<^verbatim>\<open>x - 10\<close> before clamping with \<^verbatim>\<open>Math.max(0, _)\<close>.
\<close>

type_synonym timestamp = nat

record company =
  c_id :: nat
  c_name :: string
  c_assetIdPattern :: string
  c_currentAssetId :: nat
  c_subscriptionTier :: string
  c_subscriptionStatus :: string
  c_createdAt :: timestamp

record department =
  d_id :: nat
  d_companyId :: nat
  d_name :: string
  d_assetCount :: int
  d_capacityUsed :: int
  d_createdAt :: timestamp

text \<open>\<^verbatim>\<open>Partial<Department>\<close>: an absent key is \<open>None\<close>.\<close>

record department_patch =
  dp_id :: "nat option"
  dp_companyId :: "nat option"
  dp_name :: "string option"
  dp_assetCount :: "int option"
  dp_capacityUsed :: "int option"
  dp_createdAt :: "timestamp option"

text \<open>\<^verbatim>\<open>InsertCompany\<close> and \<^verbatim>\<open>InsertDepartment\<close>.\<close>

record insertCompany =
  nc_name :: string
  nc_assetIdPattern :: "string option"
  nc_subscriptionTier :: "string option"
  nc_subscriptionStatus :: "string option"

record insertDepartment =
  nd_name :: string
  nd_companyId :: nat

record user =
  u_id :: nat
  u_companyId :: nat
  u_name :: string
  u_role :: string

record userDepartment =
  ud_id :: nat
  ud_userId :: nat
  ud_departmentId :: nat

record inventoryItem =
  i_id :: nat
  i_companyId :: nat
  i_departmentId :: nat
  i_assetId :: string
  i_name :: string
  i_quantity :: int
  i_status :: string
  i_description :: "string option"
  i_location :: "string option"
  i_customFields :: "string option"
  i_unitPrice :: "int option"
  i_purchaseDate :: "timestamp option"
  i_createdBy :: nat
  i_updatedBy :: nat
  i_createdAt :: timestamp
  i_updatedAt :: timestamp

text \<open>
  \<^verbatim>\<open>InsertInventoryItem\<close>, the output of the acceptance schema: the optional
  columns may be absent (\<open>None\<close>).
\<close>

record insertInventoryItem =
  n_companyId :: nat
  n_departmentId :: nat
  n_name :: string
  n_quantity :: int
  n_status :: "string option"
  n_description :: "string option"
  n_location :: "string option"
  n_customFields :: "string option"
  n_unitPrice :: "int option"
  n_purchaseDate :: "timestamp option"
  n_createdBy :: nat
  n_updatedBy :: nat

text \<open>
  \<^verbatim>\<open>Partial<InventoryItem>\<close>, which is also the shape of a request body: every
  column may be present or absent, and a present nullable column may hold \<^verbatim>\<open>null\<close>
  (\<open>Some None\<close>).
\<close>

record inventoryItem_patch =
  p_id :: "nat option"
  p_companyId :: "nat option"
  p_departmentId :: "nat option"
  p_assetId :: "string option"
  p_name :: "string option"
  p_quantity :: "int option"
  p_status :: "string option"
  p_description :: "string option option"
  p_location :: "string option option"
  p_customFields :: "string option option"
  p_unitPrice :: "int option option"
  p_purchaseDate :: "timestamp option option"
  p_createdBy :: "nat option"
  p_updatedBy :: "nat option"
  p_createdAt :: "timestamp option"
  p_updatedAt :: "timestamp option"

record activityLog =
  l_id :: nat
  l_action :: string
  l_itemId :: nat
  l_assetId :: string
  l_itemName :: string
  l_departmentName :: string
  l_userId :: nat
  l_userName :: string
  l_companyId :: nat
  l_createdAt :: timestamp

text \<open>\<^verbatim>\<open>InsertActivityLog\<close>: a log row before the store gives it id and time.\<close>

record insertActivityLog =
  nl_action :: string
  nl_itemId :: nat
  nl_assetId :: string
  nl_itemName :: string
  nl_departmentName :: string
  nl_userId :: nat
  nl_userName :: string
  nl_companyId :: nat

section \<open>The store\<close>

text \<open>
  The tables that are read and written by key are maps from id to row, as the
  \<^verbatim>\<open>Map<number, _>\<close> fields of \<^verbatim>\<open>MemStorage\<close> are. The membership table is
  only ever appended to and listed, so it is the list of its rows in insertion order.
\<close>

record storage =
  companies :: "nat \<rightharpoonup> company"
  departments :: "nat \<rightharpoonup> department"
  userDepartments :: "userDepartment list"
  inventoryItems :: "nat \<rightharpoonup> inventoryItem"
  activityLogs :: "nat \<rightharpoonup> activityLog"
  companyIdCounter :: nat
  departmentIdCounter :: nat
  inventoryItemIdCounter :: nat
  activityLogIdCounter :: nat

text \<open>
  \<^verbatim>\<open>DatabaseStorage\<close> runs the same steps against the durable store, one statement
  at a time and outside any transaction, and every statement may reject. The writes are
  named here; a set \<open>flt\<close> of them lists the writes that the store rejects in a run
  (a request makes each kind of write at most once). \<^verbatim>\<open>MemStorage\<close> is the case
  \<open>flt = {}\<close>.
\<close>

datatype dbwrite = CounterWrite | ItemWrite | DepartmentWrite | LogWrite

datatype error =
  CompanyNotFound nat
  | DepartmentNotFound nat
  | ItemNotFound nat
  | StoreRejected dbwrite

section \<open>Asset ids\<close>

text \<open>\<^verbatim>\<open>Number.prototype.toString()\<close> on a non-negative integer.\<close>

definition digit_char :: "nat \<Rightarrow> char" where
  "digit_char d = ''0123456789'' ! (d mod 10)"

fun toString :: "nat \<Rightarrow> string" where
  "toString n = (if n < 10 then [digit_char n] else toString (n div 10) @ [digit_char (n mod 10)])"

declare toString.simps [simp del]

text \<open>The number that a string of decimal digits denotes.\<close>

definition decimal_value :: "string \<Rightarrow> nat" where
  "decimal_value s = foldl (\<lambda>a c. 10 * a + (of_char c - 48)) 0 s"

text \<open>\<^verbatim>\<open>s.padStart(n, c)\<close> with a one-character filler.\<close>

definition padStart :: "nat \<Rightarrow> char \<Rightarrow> string \<Rightarrow> string" where
  "padStart n c s = (if n \<le> length s then s else replicate (n - length s) c @ s)"

text \<open>
  \<^verbatim>\<open>pattern.replace(/#+/g, f)\<close>: scanning from the left, every maximal run of
  \<open>#\<close> is replaced by \<open>f\<close> of the run; all other characters are copied.
\<close>

function replace_runs :: "(string \<Rightarrow> string) \<Rightarrow> string \<Rightarrow> string" where
  "replace_runs f [] = []"
| "replace_runs f (x # xs) =
     (if x = CHR ''#''
      then f (takeWhile (\<lambda>y. y = CHR ''#'') (x # xs))
           @ replace_runs f (dropWhile (\<lambda>y. y = CHR ''#'') xs)
      else x # replace_runs f xs)"
  by pat_completeness auto
termination
  by (relation "measure (\<lambda>(f, s). length s)")
     (auto simp: length_dropWhile_le less_Suc_eq_le)

definition formatAssetId :: "string \<Rightarrow> nat \<Rightarrow> string" where
  "formatAssetId pattern currentId =
     replace_runs (\<lambda>match. padStart (length match) (CHR ''0'') (toString currentId)) pattern"

definition getCompany :: "nat \<Rightarrow> storage \<Rightarrow> company option" where
  "getCompany cid s = companies s cid"

definition generateAssetId :: "dbwrite set \<Rightarrow> nat \<Rightarrow> storage \<Rightarrow> (error + string) \<times> storage" where
  "generateAssetId flt companyId s =
     (case getCompany companyId s of
        None \<Rightarrow> (Inl (CompanyNotFound companyId), s)
      | Some company \<Rightarrow>
          let pattern = c_assetIdPattern company;
              currentId = c_currentAssetId company;
              assetId = formatAssetId pattern currentId
          in if CounterWrite \<in> flt then (Inl (StoreRejected CounterWrite), s)
             else (Inr assetId,
                   s\<lparr>companies := (companies s)(companyId \<mapsto>
                        company\<lparr>c_currentAssetId := currentId + 1\<rparr>)\<rparr>))"


section \<open>Storage operations\<close>

text \<open>
  JavaScript's \<^verbatim>\<open>x || d\<close> takes \<open>d\<close> when \<open>x\<close> is absent, \<^verbatim>\<open>null\<close>, the empty
  string or the number 0.
\<close>

definition or_string :: "string option \<Rightarrow> string \<Rightarrow> string" where
  "or_string x d = (case x of None \<Rightarrow> d | Some v \<Rightarrow> if v = [] then d else v)"

definition string_or_null :: "string option \<Rightarrow> string option" where
  "string_or_null x = (case x of None \<Rightarrow> None | Some v \<Rightarrow> if v = [] then None else Some v)"

definition int_or_null :: "int option \<Rightarrow> int option" where
  "int_or_null x = (case x of None \<Rightarrow> None | Some v \<Rightarrow> if v = 0 then None else Some v)"

definition getDepartment :: "nat \<Rightarrow> nat option \<Rightarrow> storage \<Rightarrow> department option" where
  "getDepartment rid companyId s =
     (case departments s rid of
        None \<Rightarrow> None
      | Some department \<Rightarrow>
          (case companyId of
             None \<Rightarrow> Some department
           | Some c \<Rightarrow> if d_companyId department \<noteq> c then None else Some department))"

definition createDepartment :: "timestamp \<Rightarrow> insertDepartment \<Rightarrow> storage \<Rightarrow> department \<times> storage" where
  "createDepartment now departmentData s =
     (let rid = departmentIdCounter s;
          department = \<lparr>d_id = rid, d_companyId = nd_companyId departmentData,
                        d_name = nd_name departmentData, d_assetCount = 0, d_capacityUsed = 0,
                        d_createdAt = now\<rparr>
      in (department,
          s\<lparr>departmentIdCounter := rid + 1, departments := (departments s)(rid \<mapsto> department)\<rparr>))"

definition createCompany :: "timestamp \<Rightarrow> insertCompany \<Rightarrow> storage \<Rightarrow> company \<times> storage" where
  "createCompany now companyData s =
     (let rid = companyIdCounter s;
          company = \<lparr>c_id = rid, c_name = nc_name companyData,
                     c_assetIdPattern = or_string (nc_assetIdPattern companyData) ''A-####'',
                     c_currentAssetId = 1,
                     c_subscriptionTier = or_string (nc_subscriptionTier companyData) ''free'',
                     c_subscriptionStatus = or_string (nc_subscriptionStatus companyData) ''active'',
                     c_createdAt = now\<rparr>;
          s1 = s\<lparr>companyIdCounter := rid + 1, companies := (companies s)(rid \<mapsto> company)\<rparr>
      in (company, snd (createDepartment now \<lparr>nd_name = ''General'', nd_companyId = rid\<rparr> s1)))"

text \<open>\<^verbatim>\<open>{ ...department, ...data }\<close>\<close>

definition merge_department :: "department \<Rightarrow> department_patch \<Rightarrow> department" where
  "merge_department department data =
     \<lparr>d_id = (case dp_id data of None \<Rightarrow> d_id department | Some v \<Rightarrow> v),
      d_companyId = (case dp_companyId data of None \<Rightarrow> d_companyId department | Some v \<Rightarrow> v),
      d_name = (case dp_name data of None \<Rightarrow> d_name department | Some v \<Rightarrow> v),
      d_assetCount = (case dp_assetCount data of None \<Rightarrow> d_assetCount department | Some v \<Rightarrow> v),
      d_capacityUsed = (case dp_capacityUsed data of None \<Rightarrow> d_capacityUsed department | Some v \<Rightarrow> v),
      d_createdAt = (case dp_createdAt data of None \<Rightarrow> d_createdAt department | Some v \<Rightarrow> v)\<rparr>"

text \<open>The patch \<^verbatim>\<open>{ assetCount: a, capacityUsed: c }\<close> of the two accounting calls.\<close>

definition counters_patch :: "int \<Rightarrow> int \<Rightarrow> department_patch" where
  "counters_patch a c =
     \<lparr>dp_id = None, dp_companyId = None, dp_name = None, dp_assetCount = Some a,
      dp_capacityUsed = Some c, dp_createdAt = None\<rparr>"

definition updateDepartment ::
  "dbwrite set \<Rightarrow> nat \<Rightarrow> department_patch \<Rightarrow> storage \<Rightarrow> (error + department) \<times> storage" where
  "updateDepartment flt rid data s =
     (if DepartmentWrite \<in> flt then (Inl (StoreRejected DepartmentWrite), s)
      else case departments s rid of
        None \<Rightarrow> (Inl (DepartmentNotFound rid), s)
      | Some department \<Rightarrow>
          let updatedDepartment = merge_department department data
          in (Inr updatedDepartment, s\<lparr>departments := (departments s)(rid \<mapsto> updatedDepartment)\<rparr>))"

definition getUserDepartments :: "nat \<Rightarrow> storage \<Rightarrow> userDepartment list" where
  "getUserDepartments userId s = filter (\<lambda>ud. ud_userId ud = userId) (userDepartments s)"

text \<open>
  \<^verbatim>\<open>createInventoryItem\<close>, in the statement order of \<^verbatim>\<open>MemStorage\<close>: the row id is
  taken first, then the asset id is issued, the row is stored, and the department counters
  are adjusted when the department is found. (\<^verbatim>\<open>DatabaseStorage\<close> differs in that the
  row id is given by the insert.) \<open>newInventoryItem\<close> is the object literal of the
  new row; dates and the custom-field payload are objects, which \<^verbatim>\<open>||\<close> passes
  through.
\<close>

definition newInventoryItem ::
  "nat \<Rightarrow> string \<Rightarrow> timestamp \<Rightarrow> insertInventoryItem \<Rightarrow> inventoryItem" where
  "newInventoryItem rid assetId now itemData =
     \<lparr>i_id = rid, i_companyId = n_companyId itemData,
      i_departmentId = n_departmentId itemData, i_assetId = assetId,
      i_name = n_name itemData, i_quantity = n_quantity itemData,
      i_status = or_string (n_status itemData) ''active'',
      i_description = string_or_null (n_description itemData),
      i_location = string_or_null (n_location itemData),
      i_customFields = n_customFields itemData,
      i_unitPrice = int_or_null (n_unitPrice itemData),
      i_purchaseDate = n_purchaseDate itemData,
      i_createdBy = n_createdBy itemData, i_updatedBy = n_updatedBy itemData,
      i_createdAt = now, i_updatedAt = now\<rparr>"

definition createInventoryItem ::
  "dbwrite set \<Rightarrow> timestamp \<Rightarrow> insertInventoryItem \<Rightarrow> storage \<Rightarrow> (error + inventoryItem) \<times> storage" where
  "createInventoryItem flt now itemData s =
     (let rid = inventoryItemIdCounter s;
          s0 = s\<lparr>inventoryItemIdCounter := rid + 1\<rparr>
      in (case generateAssetId flt (n_companyId itemData) s0 of
            (Inl e, s1) \<Rightarrow> (Inl e, s1)
          | (Inr assetId, s1) \<Rightarrow>
             (let inventoryItem = newInventoryItem rid assetId now itemData
              in if ItemWrite \<in> flt then (Inl (StoreRejected ItemWrite), s1)
                 else
                  (let s2 = s1\<lparr>inventoryItems := (inventoryItems s1)(rid \<mapsto> inventoryItem)\<rparr>
                   in (case getDepartment (n_departmentId itemData) None s2 of
                         None \<Rightarrow> (Inr inventoryItem, s2)
                       | Some department \<Rightarrow>
                           (case updateDepartment flt (d_id department)
                                   (counters_patch (d_assetCount department + 1)
                                                   (d_capacityUsed department + 10)) s2 of
                              (Inl e, s3) \<Rightarrow> (Inl e, s3)
                            | (Inr _, s3) \<Rightarrow> (Inr inventoryItem, s3)))))))"

definition getInventoryItem :: "nat \<Rightarrow> storage \<Rightarrow> inventoryItem option" where
  "getInventoryItem rid s = inventoryItems s rid"

text \<open>\<^verbatim>\<open>{ ...item, ...data }\<close>\<close>

definition merge_item :: "inventoryItem \<Rightarrow> inventoryItem_patch \<Rightarrow> inventoryItem" where
  "merge_item item data =
     \<lparr>i_id = (case p_id data of None \<Rightarrow> i_id item | Some v \<Rightarrow> v),
      i_companyId = (case p_companyId data of None \<Rightarrow> i_companyId item | Some v \<Rightarrow> v),
      i_departmentId = (case p_departmentId data of None \<Rightarrow> i_departmentId item | Some v \<Rightarrow> v),
      i_assetId = (case p_assetId data of None \<Rightarrow> i_assetId item | Some v \<Rightarrow> v),
      i_name = (case p_name data of None \<Rightarrow> i_name item | Some v \<Rightarrow> v),
      i_quantity = (case p_quantity data of None \<Rightarrow> i_quantity item | Some v \<Rightarrow> v),
      i_status = (case p_status data of None \<Rightarrow> i_status item | Some v \<Rightarrow> v),
      i_description = (case p_description data of None \<Rightarrow> i_description item | Some v \<Rightarrow> v),
      i_location = (case p_location data of None \<Rightarrow> i_location item | Some v \<Rightarrow> v),
      i_customFields = (case p_customFields data of None \<Rightarrow> i_customFields item | Some v \<Rightarrow> v),
      i_unitPrice = (case p_unitPrice data of None \<Rightarrow> i_unitPrice item | Some v \<Rightarrow> v),
      i_purchaseDate = (case p_purchaseDate data of None \<Rightarrow> i_purchaseDate item | Some v \<Rightarrow> v),
      i_createdBy = (case p_createdBy data of None \<Rightarrow> i_createdBy item | Some v \<Rightarrow> v),
      i_updatedBy = (case p_updatedBy data of None \<Rightarrow> i_updatedBy item | Some v \<Rightarrow> v),
      i_createdAt = (case p_createdAt data of None \<Rightarrow> i_createdAt item | Some v \<Rightarrow> v),
      i_updatedAt = (case p_updatedAt data of None \<Rightarrow> i_updatedAt item | Some v \<Rightarrow> v)\<rparr>"

definition updateInventoryItem ::
  "dbwrite set \<Rightarrow> timestamp \<Rightarrow> nat \<Rightarrow> inventoryItem_patch \<Rightarrow> storage
     \<Rightarrow> (error + inventoryItem) \<times> storage" where
  "updateInventoryItem flt now rid data s =
     (if ItemWrite \<in> flt then (Inl (StoreRejected ItemWrite), s)
      else case inventoryItems s rid of
        None \<Rightarrow> (Inl (ItemNotFound rid), s)
      | Some item \<Rightarrow>
          let updatedItem = (merge_item item data)\<lparr>i_updatedAt := now\<rparr>
          in (Inr updatedItem, s\<lparr>inventoryItems := (inventoryItems s)(rid \<mapsto> updatedItem)\<rparr>))"

definition deleteInventoryItem :: "dbwrite set \<Rightarrow> nat \<Rightarrow> storage \<Rightarrow> (error + unit) \<times> storage" where
  "deleteInventoryItem flt rid s =
     (case inventoryItems s rid of
        None \<Rightarrow> (Inl (ItemNotFound rid), s)
      | Some item \<Rightarrow>
          (case (case getDepartment (i_departmentId item) None s of
                   None \<Rightarrow> (Inr (), s)
                 | Some department \<Rightarrow>
                     (case updateDepartment flt (d_id department)
                             (counters_patch (max 0 (d_assetCount department - 1))
                                             (max 0 (d_capacityUsed department - 10))) s of
                        (Inl e, s1) \<Rightarrow> (Inl e, s1)
                      | (Inr _, s1) \<Rightarrow> (Inr (), s1))) of
             (Inl e, s1) \<Rightarrow> (Inl e, s1)
           | (Inr _, s1) \<Rightarrow>
               if ItemWrite \<in> flt then (Inl (StoreRejected ItemWrite), s1)
               else (Inr (), s1\<lparr>inventoryItems := (inventoryItems s1)(rid := None)\<rparr>)))"

definition createActivityLog ::
  "dbwrite set \<Rightarrow> timestamp \<Rightarrow> insertActivityLog \<Rightarrow> storage \<Rightarrow> (error + activityLog) \<times> storage" where
  "createActivityLog flt now logData s =
     (if LogWrite \<in> flt then (Inl (StoreRejected LogWrite), s)
      else
        let rid = activityLogIdCounter s;
            activityLog =
              \<lparr>l_id = rid, l_action = nl_action logData, l_itemId = nl_itemId logData,
               l_assetId = nl_assetId logData, l_itemName = nl_itemName logData,
               l_departmentName = nl_departmentName logData, l_userId = nl_userId logData,
               l_userName = nl_userName logData, l_companyId = nl_companyId logData,
               l_createdAt = now\<rparr>
        in (Inr activityLog,
            s\<lparr>activityLogIdCounter := rid + 1, activityLogs := (activityLogs s)(rid \<mapsto> activityLog)\<rparr>))"

section \<open>Inventory routes\<close>

datatype body = Message string | Item inventoryItem | ZodErrors

datatype response = Response nat body

text \<open>\<^verbatim>\<open>(await storage.getDepartment(id))?.name || "Unknown"\<close>\<close>

definition departmentNameOrUnknown :: "nat \<Rightarrow> storage \<Rightarrow> string" where
  "departmentNameOrUnknown rid s =
     or_string (case getDepartment rid None s of None \<Rightarrow> None | Some d \<Rightarrow> Some (d_name d))
       ''Unknown''"

text \<open>
  \<^verbatim>\<open>POST /api/inventory\<close>. The acceptance schema \<^verbatim>\<open>insertInventoryItemSchema\<close>
  is not among the sources, so it is the parameter \<open>schema\<close>: \<open>None\<close> is a
  \<^verbatim>\<open>ZodError\<close>. \<open>now\<close> and \<open>now'\<close> are the clock readings of the item write
  and of the log write.
\<close>

definition post_inventory ::
  "(inventoryItem_patch \<Rightarrow> insertInventoryItem option) \<Rightarrow> dbwrite set \<Rightarrow> user
     \<Rightarrow> inventoryItem_patch \<Rightarrow> timestamp \<Rightarrow> timestamp \<Rightarrow> storage \<Rightarrow> response \<times> storage" where
  "post_inventory schema flt user req_body now now' s =
     (let departmentId = p_departmentId req_body
      in if departmentId = None \<or> departmentId = Some 0
         then (Response 400 (Message ''Department ID is required''), s)
         else if u_role user \<noteq> ''admin''
                 \<and> \<not> list_ex (\<lambda>ud. Some (ud_departmentId ud) = departmentId)
                        (getUserDepartments (u_id user) s)
         then (Response 403 (Message ''You don't have access to this department''), s)
         else (case schema (req_body\<lparr>p_companyId := Some (u_companyId user),
                                      p_createdBy := Some (u_id user),
                                      p_updatedBy := Some (u_id user)\<rparr>) of
           None \<Rightarrow> (Response 400 ZodErrors, s)
         | Some itemData \<Rightarrow>
             (case createInventoryItem flt now itemData s of
                (Inl e, s1) \<Rightarrow> (Response 500 (Message ''Server error''), s1)
              | (Inr item, s1) \<Rightarrow>
                  (case createActivityLog flt now'
                          \<lparr>nl_action = ''added'', nl_itemId = i_id item,
                           nl_assetId = i_assetId item, nl_itemName = i_name item,
                           nl_departmentName = departmentNameOrUnknown (i_departmentId item) s1,
                           nl_userId = u_id user, nl_userName = u_name user,
                           nl_companyId = u_companyId user\<rparr> s1 of
                     (Inl e, s2) \<Rightarrow> (Response 500 (Message ''Server error''), s2)
                   | (Inr _, s2) \<Rightarrow> (Response 201 (Item item), s2)))))"

text \<open>
  \<^verbatim>\<open>PUT /api/inventory/:id\<close>. The request body goes to the store unvalidated, with
  \<^verbatim>\<open>updatedBy\<close> set to the caller. \<open>itemId\<close> is the parsed path parameter; a
  parameter that does not parse finds no row, as an unused id does.
\<close>

definition put_inventory ::
  "dbwrite set \<Rightarrow> user \<Rightarrow> nat \<Rightarrow> inventoryItem_patch \<Rightarrow> timestamp \<Rightarrow> timestamp \<Rightarrow> storage
     \<Rightarrow> response \<times> storage" where
  "put_inventory flt user itemId req_body now now' s =
     (case getInventoryItem itemId s of
        None \<Rightarrow> (Response 404 (Message ''Item not found''), s)
      | Some existingItem \<Rightarrow>
          if i_companyId existingItem \<noteq> u_companyId user
          then (Response 403 (Message ''Access denied''), s)
          else if u_role user \<noteq> ''admin''
                  \<and> \<not> list_ex (\<lambda>ud. ud_departmentId ud = i_departmentId existingItem)
                         (getUserDepartments (u_id user) s)
          then (Response 403 (Message ''You don't have access to this department''), s)
          else (case updateInventoryItem flt now itemId
                       (req_body\<lparr>p_updatedBy := Some (u_id user)\<rparr>) s of
                  (Inl e, s1) \<Rightarrow> (Response 500 (Message ''Server error''), s1)
                | (Inr updatedItem, s1) \<Rightarrow>
                    (case createActivityLog flt now'
                            \<lparr>nl_action = ''updated'', nl_itemId = i_id updatedItem,
                             nl_assetId = i_assetId updatedItem, nl_itemName = i_name updatedItem,
                             nl_departmentName =
                               departmentNameOrUnknown (i_departmentId updatedItem) s1,
                             nl_userId = u_id user, nl_userName = u_name user,
                             nl_companyId = u_companyId user\<rparr> s1 of
                       (Inl e, s2) \<Rightarrow> (Response 500 (Message ''Server error''), s2)
                     | (Inr _, s2) \<Rightarrow> (Response 200 (Item updatedItem), s2))))"

text \<open>\<^verbatim>\<open>DELETE /api/inventory/:id\<close>\<close>

definition delete_inventory ::
  "dbwrite set \<Rightarrow> user \<Rightarrow> nat \<Rightarrow> timestamp \<Rightarrow> storage \<Rightarrow> response \<times> storage" where
  "delete_inventory flt user itemId now' s =
     (case getInventoryItem itemId s of
        None \<Rightarrow> (Response 404 (Message ''Item not found''), s)
      | Some existingItem \<Rightarrow>
          if i_companyId existingItem \<noteq> u_companyId user
          then (Response 403 (Message ''Access denied''), s)
          else if u_role user \<noteq> ''admin''
          then (Response 403 (Message ''Only admins can delete items''), s)
          else
            (let itemName = i_name existingItem;
                 departmentName = departmentNameOrUnknown (i_departmentId existingItem) s;
                 assetId = i_assetId existingItem
             in (case deleteInventoryItem flt itemId s of
                   (Inl e, s1) \<Rightarrow> (Response 500 (Message ''Server error''), s1)
                 | (Inr _, s1) \<Rightarrow>
                     (case createActivityLog flt now'
                             \<lparr>nl_action = ''removed'', nl_itemId = itemId, nl_assetId = assetId,
                              nl_itemName = itemName, nl_departmentName = departmentName,
                              nl_userId = u_id user, nl_userName = u_name user,
                              nl_companyId = u_companyId user\<rparr> s1 of
                        (Inl e, s2) \<Rightarrow> (Response 500 (Message ''Server error''), s2)
                      | (Inr _, s2) \<Rightarrow>
                          (Response 200 (Message ''Item deleted successfully''), s2)))))"

section \<open>Requests\<close>

text \<open>One request to one of the three inventory routes, and the route that serves it.\<close>

datatype request =
  PostInventory user inventoryItem_patch timestamp timestamp
  | PutInventory user nat inventoryItem_patch timestamp timestamp
  | DeleteInventory user nat timestamp

fun handle ::
  "(inventoryItem_patch \<Rightarrow> insertInventoryItem option) \<Rightarrow> dbwrite set \<Rightarrow> request \<Rightarrow> storage
     \<Rightarrow> response \<times> storage" where
  "handle schema flt (PostInventory user req_body now now') s =
     post_inventory schema flt user req_body now now' s"
| "handle schema flt (PutInventory user itemId req_body now now') s =
     put_inventory flt user itemId req_body now now' s"
| "handle schema flt (DeleteInventory user itemId now') s =
     delete_inventory flt user itemId now' s"

text \<open>
  The id counter of the activity table lies above every stored row, as it does in every
  store built by \<open>createActivityLog\<close>; \<open>log_extends s s'\<close> says that \<open>s'\<close> has the
  activity table of \<open>s\<close>, or that table with one row added at the counter.
\<close>

definition logs_fresh :: "storage \<Rightarrow> bool" where
  "logs_fresh s = (\<forall>k. activityLogs s k \<noteq> None \<longrightarrow> k < activityLogIdCounter s)"

definition log_extends :: "storage \<Rightarrow> storage \<Rightarrow> bool" where
  "log_extends s s' =
     ((activityLogs s' = activityLogs s \<and> activityLogIdCounter s' = activityLogIdCounter s)
      \<or> (\<exists>row. activityLogs s' = (activityLogs s)(activityLogIdCounter s \<mapsto> row)
               \<and> activityLogIdCounter s' = activityLogIdCounter s + 1))"

section \<open>Sequences of storage calls\<close>

text \<open>
  A run of calls on \<^verbatim>\<open>MemStorage\<close>. A call that throws leaves the store as it was
  at the throw, and the next call goes on from there.
\<close>

datatype op =
  CreateItem timestamp insertInventoryItem
  | UpdateItem timestamp nat inventoryItem_patch
  | DeleteItem nat

fun apply_op :: "op \<Rightarrow> storage \<Rightarrow> storage" where
  "apply_op (CreateItem now itemData) s = snd (createInventoryItem {} now itemData s)"
| "apply_op (UpdateItem now rid data) s = snd (updateInventoryItem {} now rid data s)"
| "apply_op (DeleteItem rid) s = snd (deleteInventoryItem {} rid s)"

fun run_ops :: "op list \<Rightarrow> storage \<Rightarrow> storage" where
  "run_ops [] s = s"
| "run_ops (x # xs) s = run_ops xs (apply_op x s)"

text \<open>
  A call together with the writes that the store rejects during it, for runs against the
  durable store.
\<close>

fun apply_call :: "dbwrite set \<times> op \<Rightarrow> storage \<Rightarrow> storage" where
  "apply_call (flt, CreateItem now itemData) s = snd (createInventoryItem flt now itemData s)"
| "apply_call (flt, UpdateItem now rid data) s = snd (updateInventoryItem flt now rid data s)"
| "apply_call (flt, DeleteItem rid) s = snd (deleteInventoryItem flt rid s)"

text \<open>
  The rows that the creations of a run stored, in creation order: after a creation, the
  row under the id that the creation took, if there is one. (A creation whose counter
  write or item write was rejected stores none; one whose department write was rejected
  has stored its row, although the call throws.)
\<close>

fun created_items :: "(dbwrite set \<times> op) list \<Rightarrow> storage \<Rightarrow> inventoryItem list" where
  "created_items [] s = []"
| "created_items ((flt, CreateItem now itemData) # xs) s =
     (case inventoryItems (apply_call (flt, CreateItem now itemData) s)
             (inventoryItemIdCounter s) of
        None \<Rightarrow> created_items xs (apply_call (flt, CreateItem now itemData) s)
      | Some item \<Rightarrow> item # created_items xs (apply_call (flt, CreateItem now itemData) s))"
| "created_items (x # xs) s = created_items xs (apply_call x s)"

text \<open>
  The id counter of the item table lies above every stored row, as it does in every store
  built by \<open>createInventoryItem\<close>.
\<close>

definition items_fresh :: "storage \<Rightarrow> bool" where
  "items_fresh s = (\<forall>k. inventoryItems s k \<noteq> None \<longrightarrow> k < inventoryItemIdCounter s)"

text \<open>
  Every department row sits under its own id (true of the rows \<open>createDepartment\<close>
  stores), and no department counter is negative.
\<close>

definition departments_wf :: "storage \<Rightarrow> bool" where
  "departments_wf s = (\<forall>k d. departments s k = Some d \<longrightarrow> d_id d = k)"

definition dept_nonneg :: "storage \<Rightarrow> bool" where
  "dept_nonneg s =
     (\<forall>k d. departments s k = Some d \<longrightarrow> 0 \<le> d_assetCount d \<and> 0 \<le> d_capacityUsed d)"

section \<open>Sample states\<close>

text \<open>
  \<open>empty_storage\<close> is the store that the constructor of \<^verbatim>\<open>MemStorage\<close> builds.
  \<open>demo_storage pattern n\<close> holds one company with the given pattern and counter and
  its \<^verbatim>\<open>General\<close> department, as \<^verbatim>\<open>createCompany\<close> leaves them.
\<close>

definition empty_storage :: storage where
  "empty_storage =
     \<lparr>companies = Map.empty, departments = Map.empty, userDepartments = [],
      inventoryItems = Map.empty, activityLogs = Map.empty, companyIdCounter = 1,
      departmentIdCounter = 1, inventoryItemIdCounter = 1, activityLogIdCounter = 1\<rparr>"

definition demo_company :: "string \<Rightarrow> nat \<Rightarrow> company" where
  "demo_company pattern n =
     \<lparr>c_id = 1, c_name = ''Acme'', c_assetIdPattern = pattern, c_currentAssetId = n,
      c_subscriptionTier = ''free'', c_subscriptionStatus = ''active'', c_createdAt = 0\<rparr>"

definition demo_department :: "nat \<Rightarrow> string \<Rightarrow> int \<Rightarrow> int \<Rightarrow> department" where
  "demo_department k name a c =
     \<lparr>d_id = k, d_companyId = 1, d_name = name, d_assetCount = a, d_capacityUsed = c,
      d_createdAt = 0\<rparr>"

definition demo_storage :: "string \<Rightarrow> nat \<Rightarrow> storage" where
  "demo_storage pattern n =
     empty_storage\<lparr>companies := [1 \<mapsto> demo_company pattern n],
                   departments := [1 \<mapsto> demo_department 1 ''General'' 0 0],
                   companyIdCounter := 2, departmentIdCounter := 2\<rparr>"


definition demo_insert :: "nat \<Rightarrow> string \<Rightarrow> insertInventoryItem" where
  "demo_insert dpt name =
     \<lparr>n_companyId = 1, n_departmentId = dpt, n_name = name, n_quantity = 1, n_status = None,
      n_description = None, n_location = None, n_customFields = None, n_unitPrice = None,
      n_purchaseDate = None, n_createdBy = 1, n_updatedBy = 1\<rparr>"

definition demo_creations :: "(timestamp \<times> insertInventoryItem) list" where
  "demo_creations = [(10, demo_insert 1 ''Drill''), (11, demo_insert 1 ''Saw'')]"

definition demo_ops :: "op list" where
  "demo_ops = map (\<lambda>(now, itemData). CreateItem now itemData) demo_creations"

text \<open>
  Three creations against the durable store: the second has its item write rejected, the
  third its department write.
\<close>

definition demo_calls :: "(dbwrite set \<times> op) list" where
  "demo_calls =
     [({}, CreateItem 10 (demo_insert 1 ''Drill'')),
      ({ItemWrite}, CreateItem 11 (demo_insert 1 ''Saw'')),
      ({DepartmentWrite}, CreateItem 12 (demo_insert 1 ''Axe''))]"

text \<open>The empty request body.\<close>

definition empty_patch :: inventoryItem_patch where
  "empty_patch =
     \<lparr>p_id = None, p_companyId = None, p_departmentId = None, p_assetId = None, p_name = None,
      p_quantity = None, p_status = None, p_description = None, p_location = None,
      p_customFields = None, p_unitPrice = None, p_purchaseDate = None, p_createdBy = None,
      p_updatedBy = None, p_createdAt = None, p_updatedAt = None\<rparr>"

text \<open>
  Modelled from the spec: the acceptance schema \<^verbatim>\<open>insertInventoryItemSchema\<close> is missing
  from the sources. \<open>sample_schema\<close> stands in for it in the sample runs only: it asks
  for tenant, department, a non-empty name and the two user ids, and for a quantity of at
  least 1 (1 when absent). The theorems take the schema as a parameter.
\<close>

definition sample_schema :: "inventoryItem_patch \<Rightarrow> insertInventoryItem option" where
  "sample_schema b =
     (case (p_companyId b, p_departmentId b, p_name b, p_createdBy b, p_updatedBy b) of
        (Some c, Some d, Some n, Some cb, Some ub) \<Rightarrow>
          (let q = (case p_quantity b of None \<Rightarrow> 1 | Some q \<Rightarrow> q)
           in if q < 1 \<or> n = [] then None
              else Some \<lparr>n_companyId = c, n_departmentId = d, n_name = n, n_quantity = q,
                         n_status = p_status b,
                         n_description = (case p_description b of None \<Rightarrow> None | Some v \<Rightarrow> v),
                         n_location = (case p_location b of None \<Rightarrow> None | Some v \<Rightarrow> v),
                         n_customFields = (case p_customFields b of None \<Rightarrow> None | Some v \<Rightarrow> v),
                         n_unitPrice = (case p_unitPrice b of None \<Rightarrow> None | Some v \<Rightarrow> v),
                         n_purchaseDate = (case p_purchaseDate b of None \<Rightarrow> None | Some v \<Rightarrow> v),
                         n_createdBy = cb, n_updatedBy = ub\<rparr>)
      | _ \<Rightarrow> None)"

definition demo_admin :: user where
  "demo_admin = \<lparr>u_id = 1, u_companyId = 1, u_name = ''Ada'', u_role = ''admin''\<rparr>"

definition demo_employee :: user where
  "demo_employee = \<lparr>u_id = 2, u_companyId = 1, u_name = ''Bob'', u_role = ''employee''\<rparr>"

definition demo_outsider :: user where
  "demo_outsider = \<lparr>u_id = 7, u_companyId = 2, u_name = ''Eve'', u_role = ''admin''\<rparr>"

text \<open>
  \<open>demo_stocked\<close> is the sample store after a second department was added and a first
  item was created in the first one.
\<close>

definition demo_item :: inventoryItem where
  "demo_item =
     \<lparr>i_id = 1, i_companyId = 1, i_departmentId = 1, i_assetId = ''A-0001'', i_name = ''Drill'',
      i_quantity = 1, i_status = ''active'', i_description = None, i_location = None,
      i_customFields = None, i_unitPrice = None, i_purchaseDate = None, i_createdBy = 1,
      i_updatedBy = 1, i_createdAt = 10, i_updatedAt = 10\<rparr>"

definition demo_stocked :: storage where
  "demo_stocked =
     (demo_storage ''A-####'' 2)
       \<lparr>departments := [1 \<mapsto> demo_department 1 ''General'' 1 10,
                        2 \<mapsto> demo_department 2 ''Tools'' 0 0],
        departmentIdCounter := 3,
        inventoryItems := [1 \<mapsto> demo_item],
        inventoryItemIdCounter := 2\<rparr>"

definition demo_body :: inventoryItem_patch where
  "demo_body = empty_patch\<lparr>p_departmentId := Some 1, p_name := Some ''Saw''\<rparr>"

definition demo_saw :: inventoryItem where
  "demo_saw =
     \<lparr>i_id = 2, i_companyId = 1, i_departmentId = 1, i_assetId = ''A-0002'', i_name = ''Saw'',
      i_quantity = 1, i_status = ''active'', i_description = None, i_location = None,
      i_customFields = None, i_unitPrice = None, i_purchaseDate = None, i_createdBy = 1,
      i_updatedBy = 1, i_createdAt = 20, i_updatedAt = 20\<rparr>"

definition demo_log :: activityLog where
  "demo_log =
     \<lparr>l_id = 1, l_action = ''added'', l_itemId = 2, l_assetId = ''A-0002'', l_itemName = ''Saw'',
      l_departmentName = ''General'', l_userId = 1, l_userName = ''Ada'', l_companyId = 1,
      l_createdAt = 21\<rparr>"

text \<open>
  \<open>demo_unnamed\<close> is \<open>demo_stocked\<close> with a second department whose name is the
  empty string, which \<open>createDepartment\<close> accepts.
\<close>

definition demo_unnamed :: storage where
  "demo_unnamed =
     demo_stocked\<lparr>departments := [1 \<mapsto> demo_department 1 ''General'' 1 10,
                                     2 \<mapsto> demo_department 2 [] 0 0]\<rparr>"

definition demo_unnamed_body :: inventoryItem_patch where
  "demo_unnamed_body = empty_patch\<lparr>p_departmentId := Some 2, p_name := Some ''Saw''\<rparr>"

definition demo_rename :: inventoryItem_patch where
  "demo_rename = empty_patch\<lparr>p_name := Some ''Hammer drill''\<rparr>"

section \<open>Properties of the asset-id rendering\<close>

lemmas demo_defs = empty_storage_def demo_company_def demo_department_def demo_storage_def
  demo_insert_def demo_creations_def demo_ops_def demo_calls_def

lemmas storage_defs = createInventoryItem_def newInventoryItem_def generateAssetId_def
  getCompany_def getDepartment_def
  updateDepartment_def updateInventoryItem_def deleteInventoryItem_def createActivityLog_def
  merge_department_def counters_patch_def or_string_def string_or_null_def int_or_null_def

lemmas route_defs = post_inventory_def put_inventory_def delete_inventory_def
  getInventoryItem_def getUserDepartments_def departmentNameOrUnknown_def merge_item_def

lemmas sample_defs = empty_patch_def sample_schema_def demo_admin_def demo_employee_def
  demo_outsider_def demo_item_def demo_stocked_def demo_body_def demo_saw_def
  demo_unnamed_def demo_unnamed_body_def demo_rename_def demo_log_def

lemmas eval_defs = route_defs demo_defs sample_defs storage_defs formatAssetId_def padStart_def
  toString.simps digit_char_def Let_def

lemma createCompany_demo:
  "snd (createCompany 0 \<lparr>nc_name = ''Acme'', nc_assetIdPattern = None,
          nc_subscriptionTier = None, nc_subscriptionStatus = None\<rparr> empty_storage)
     = demo_storage ''A-####'' 1"
  by (simp add: createCompany_def createDepartment_def demo_defs or_string_def Let_def)

lemma padStart_replicate: "padStart n c s = replicate (n - length s) c @ s"
  by (simp add: padStart_def)

lemma generateAssetId_ok:
  "companies s cid = Some co \<Longrightarrow> CounterWrite \<notin> flt \<Longrightarrow>
   generateAssetId flt cid s =
     (Inr (formatAssetId (c_assetIdPattern co) (c_currentAssetId co)),
      s\<lparr>companies := (companies s)(cid \<mapsto> co\<lparr>c_currentAssetId := c_currentAssetId co + 1\<rparr>)\<rparr>)"
  by (simp add: generateAssetId_def getCompany_def Let_def)

lemma replicate_numeral: "replicate (numeral k) x = x # replicate (pred_numeral k) x"
  by (simp add: numeral_eq_Suc)




lemma replace_runs_plain: "CHR ''#'' \<notin> set p \<Longrightarrow> replace_runs f p = p"
  by (induction p) auto

lemma replace_runs_prefix:
  "CHR ''#'' \<notin> set pre \<Longrightarrow> replace_runs f (pre @ rest) = pre @ replace_runs f rest"
  by (induction pre) auto

lemma takeWhile_run:
  "rest = [] \<or> hd rest \<noteq> c \<Longrightarrow> takeWhile (\<lambda>y. y = c) (replicate n c @ rest) = replicate n c"
  by (induction n) (cases rest; auto)+

lemma dropWhile_run:
  "rest = [] \<or> hd rest \<noteq> c \<Longrightarrow> dropWhile (\<lambda>y. y = c) (replicate n c @ rest) = rest"
  by (induction n) (cases rest; auto)+

lemma replace_runs_run:
  assumes "0 < n" and "rest = [] \<or> hd rest \<noteq> CHR ''#''"
  shows "replace_runs f (replicate n (CHR ''#'') @ rest)
           = f (replicate n (CHR ''#'')) @ replace_runs f rest"
proof -
  from assms(1) obtain m where n: "n = Suc m" by (cases n) auto
  have "replace_runs f (CHR ''#'' # (replicate m (CHR ''#'') @ rest))
          = f (takeWhile (\<lambda>y. y = CHR ''#'') (replicate (Suc m) (CHR ''#'') @ rest))
            @ replace_runs f (dropWhile (\<lambda>y. y = CHR ''#'') (replicate m (CHR ''#'') @ rest))"
    by simp
  also have "\<dots> = f (replicate (Suc m) (CHR ''#'')) @ replace_runs f rest"
    using assms(2) by (simp only: takeWhile_run dropWhile_run)
  finally show ?thesis by (simp add: n)
qed

lemma formatAssetId_run:
  assumes "CHR ''#'' \<notin> set pre" "0 < n" "rest = [] \<or> hd rest \<noteq> CHR ''#''"
  shows "formatAssetId (pre @ replicate n (CHR ''#'') @ rest) c
           = pre @ padStart n (CHR ''0'') (toString c) @ formatAssetId rest c"
  using assms by (simp add: formatAssetId_def replace_runs_prefix replace_runs_run)

lemma formatAssetId_plain: "CHR ''#'' \<notin> set p \<Longrightarrow> formatAssetId p c = p"
  by (simp add: formatAssetId_def replace_runs_plain)


lemma digit_char_inj: "a < 10 \<Longrightarrow> b < 10 \<Longrightarrow> digit_char a = digit_char b \<Longrightarrow> a = b"
proof -
  assume a: "a < 10" and b: "b < 10" and e: "digit_char a = digit_char b"
  have A: "a \<in> {0,1,2,3,4,5,6,7,8,9}" using a by auto
  have B: "b \<in> {0,1,2,3,4,5,6,7,8,9}" using b by auto
  show ?thesis using A B e by (auto simp: digit_char_def)
qed

lemma digit_char_zero: "a < 10 \<Longrightarrow> digit_char a = CHR ''0'' \<Longrightarrow> a = 0"
  using digit_char_inj [of a 0] by (simp add: digit_char_def)

lemma toString_nonempty: "toString n \<noteq> []"
  by (subst toString.simps) simp

lemma toString_small: "n < 10 \<Longrightarrow> toString n = [digit_char n]"
  by (subst toString.simps) simp

lemma toString_big: "\<not> n < 10 \<Longrightarrow> toString n = toString (n div 10) @ [digit_char (n mod 10)]"
  by (subst toString.simps) simp

lemma toString_inj: "toString a = toString b \<Longrightarrow> a = b"
proof (induction a arbitrary: b rule: toString.induct)
  case (1 n)
  show ?case
  proof (cases "n < 10")
    case True
    show ?thesis
    proof (cases "b < 10")
      case b: True
      with True "1.prems" show ?thesis by (simp add: toString_small digit_char_inj)
    next
      case b: False
      with True "1.prems" toString_nonempty [of "b div 10"] show ?thesis
        by (simp add: toString_small toString_big)
    qed
  next
    case False
    show ?thesis
    proof (cases "b < 10")
      case b: True
      with False "1.prems" toString_nonempty [of "n div 10"] show ?thesis
        by (simp add: toString_small toString_big)
    next
      case b: False
      with False "1.prems" have e: "toString (n div 10) = toString (b div 10)"
        and d: "digit_char (n mod 10) = digit_char (b mod 10)"
        by (simp_all add: toString_big)
      from "1.IH" [OF False e] have "n div 10 = b div 10" .
      moreover from d have "n mod 10 = b mod 10" by (auto dest!: digit_char_inj [rotated 2])
      ultimately show ?thesis by (metis div_mult_mod_eq)
    qed
  qed
qed

lemma toString_hd_zero: "hd (toString n) = CHR ''0'' \<Longrightarrow> toString n = ''0''"
proof (induction n rule: toString.induct)
  case (1 n)
  show ?case
  proof (cases "n < 10")
    case True
    with "1.prems" have "n = 0" by (simp add: toString_small digit_char_zero)
    then show ?thesis by (simp add: toString_small digit_char_def)
  next
    case False
    with "1.prems" toString_nonempty [of "n div 10"]
    have "hd (toString (n div 10)) = CHR ''0''" by (simp add: toString_big)
    from "1.IH" [OF False this] have "toString (n div 10) = ''0''" .
    moreover have "toString 0 = ''0''" by (simp add: toString_small digit_char_def)
    ultimately have "n div 10 = 0" using toString_inj [of "n div 10" 0] by simp
    with False show ?thesis by simp
  qed
qed


lemma digit_char_value: "of_char (digit_char d) - 48 = (d mod 10 :: nat)"
proof -
  have "d mod 10 \<in> {0,1,2,3,4,5,6,7,8,9}" by (simp add: mod_less_divisor) presburger
  then show ?thesis by (auto simp: digit_char_def)
qed

lemma decimal_value_toString: "decimal_value (toString n) = n"
proof (induction n rule: toString.induct)
  case (1 n)
  show ?case
  proof (cases "n < 10")
    case True
    then show ?thesis by (simp add: toString_small decimal_value_def digit_char_value)
  next
    case False
    with "1.IH" have "decimal_value (toString (n div 10)) = n div 10" by simp
    with False show ?thesis
      by (simp add: toString_big decimal_value_def digit_char_value)
  qed
qed

lemma run_induct [case_names Nil Hash Other]:
  assumes "P []"
    and "\<And>xs. P (dropWhile (\<lambda>y. y = CHR ''#'') xs) \<Longrightarrow> P (CHR ''#'' # xs)"
    and "\<And>x xs. x \<noteq> CHR ''#'' \<Longrightarrow> P xs \<Longrightarrow> P (x # xs)"
  shows "P p"
proof (induction p rule: length_induct)
  case (1 p)
  show ?case
  proof (cases p)
    case Nil
    then show ?thesis by (simp add: assms(1))
  next
    case (Cons x xs)
    show ?thesis
    proof (cases "x = CHR ''#''")
      case True
      have "length (dropWhile (\<lambda>y. y = CHR ''#'') xs) < length p"
        using Cons by (simp add: length_dropWhile_le less_Suc_eq_le)
      with "1.IH" have "P (dropWhile (\<lambda>y. y = CHR ''#'') xs)" by blast
      with True Cons show ?thesis by (simp add: assms(2))
    next
      case False
      have "P xs" using "1.IH" Cons by simp
      with False Cons show ?thesis by (simp add: assms(3))
    qed
  qed
qed

lemma formatAssetId_Nil: "formatAssetId [] c = []"
  by (simp add: formatAssetId_def)

lemma formatAssetId_other: "x \<noteq> CHR ''#'' \<Longrightarrow> formatAssetId (x # xs) c = x # formatAssetId xs c"
  by (simp add: formatAssetId_def)

lemma formatAssetId_hash:
  "formatAssetId (CHR ''#'' # xs) c
     = padStart (Suc (length (takeWhile (\<lambda>y. y = CHR ''#'') xs))) (CHR ''0'') (toString c)
       @ formatAssetId (dropWhile (\<lambda>y. y = CHR ''#'') xs) c"
  by (simp add: formatAssetId_def)

lemma length_padStart: "length (padStart n c s) = max n (length s)"
  by (simp add: padStart_def)

lemma zeros_cancel:
  assumes "replicate i z @ s = replicate j z @ t" and "i \<le> j"
  shows "s = replicate (j - i) z @ t"
proof -
  have "replicate j z = replicate i z @ replicate (j - i) z"
    using assms(2) by (simp add: replicate_add [symmetric])
  with assms(1) show ?thesis by simp
qed

lemma padStart_toString_less:
  assumes "padStart n (CHR ''0'') (toString a) = padStart n (CHR ''0'') (toString b)"
    and "length (toString a) \<le> length (toString b)"
  shows "a = b"
proof -
  let ?s = "toString a" and ?t = "toString b"
  define d where "d = (n - length ?s) - (n - length ?t)"
  have "replicate (n - length ?s) (CHR ''0'') @ ?s = replicate (n - length ?t) (CHR ''0'') @ ?t"
    using assms(1) by (simp add: padStart_def split: if_splits)
  moreover have "n - length ?t \<le> n - length ?s" using assms(2) by simp
  ultimately have e: "?t = replicate d (CHR ''0'') @ ?s"
    unfolding d_def
    using zeros_cancel [of "n - length ?t" "CHR ''0''" ?t "n - length ?s" ?s] by simp
  show ?thesis
  proof (cases "d = 0")
    case True
    with e have "?t = ?s" by simp
    then show ?thesis by (simp add: toString_inj)
  next
    case False
    then obtain k where k: "d = Suc k"
      by (cases d) auto
    have "hd ?t = CHR ''0''" by (subst e) (simp add: k)
    then have "?t = ''0''" by (rule toString_hd_zero)
    then have "length ?t = 1" by simp
    moreover have "length ?t = Suc k + length ?s" by (subst e) (simp add: k)
    ultimately show ?thesis using toString_nonempty [of a] by simp
  qed
qed

lemma padStart_toString_inj:
  "padStart n (CHR ''0'') (toString a) = padStart n (CHR ''0'') (toString b) \<Longrightarrow> a = b"
  using padStart_toString_less [of n a b] padStart_toString_less [of n b a]
  by (metis nat_le_linear)

lemma length_formatAssetId_mono:
  "length (toString a) \<le> length (toString b)
     \<Longrightarrow> length (formatAssetId p a) \<le> length (formatAssetId p b)"
  by (induction p rule: run_induct)
     (auto simp: formatAssetId_Nil formatAssetId_other formatAssetId_hash length_padStart)

lemma formatAssetId_hash_less:
  assumes "formatAssetId (CHR ''#'' # xs) a = formatAssetId (CHR ''#'' # xs) b"
    and "length (toString a) \<le> length (toString b)"
  shows "a = b"
proof -
  let ?n = "Suc (length (takeWhile (\<lambda>y. y = CHR ''#'') xs))"
  let ?r = "dropWhile (\<lambda>y. y = CHR ''#'') xs"
  let ?pa = "padStart ?n (CHR ''0'') (toString a)" and ?pb = "padStart ?n (CHR ''0'') (toString b)"
  have e: "?pa @ formatAssetId ?r a = ?pb @ formatAssetId ?r b"
    using assms(1) by (simp only: formatAssetId_hash)
  have m: "length (formatAssetId ?r a) \<le> length (formatAssetId ?r b)"
    using assms(2) by (rule length_formatAssetId_mono)
  have "length ?pa \<le> length ?pb" using assms(2) by (simp add: length_padStart)
  moreover have "length (?pa @ formatAssetId ?r a) = length (?pb @ formatAssetId ?r b)"
    using e by simp
  ultimately have "length ?pa = length ?pb" using m by simp
  with e have "?pa = ?pb" by simp
  then show ?thesis by (rule padStart_toString_inj)
qed

lemma formatAssetId_inj:
  "CHR ''#'' \<in> set p \<Longrightarrow> formatAssetId p a = formatAssetId p b \<Longrightarrow> a = b"
proof (induction p rule: run_induct)
  case Nil
  then show ?case by simp
next
  case (Hash xs)
  then show ?case
    using formatAssetId_hash_less [of xs a b] formatAssetId_hash_less [of xs b a]
    by (metis nat_le_linear)
next
  case (Other x xs)
  then show ?case by (simp add: formatAssetId_other)
qed

section \<open>Asset-id issuance\<close>

text \<open>
  C3. The counter is rendered as its decimal numeral \<open>toString c\<close>. With a single
  placeholder run of length \<open>n\<close> in the pattern, \<open>generateAssetId\<close>
  returns the pattern with the run replaced by the decimal counter, preceded by
  \<open>n - length digits\<close> zeros (none when the counter has at least \<open>n\<close> digits, so
  nothing is cut off). With no placeholder it returns the pattern itself. Pattern
  \<^verbatim>\<open>A-####\<close> gives \<^verbatim>\<open>A-0007\<close> at counter 7 and \<^verbatim>\<open>A-12345\<close> at counter 12345,
  and pattern \<^verbatim>\<open>ITEM\<close> gives \<^verbatim>\<open>ITEM\<close> at every counter.
\<close>

theorem generateAssetId_single_run:
  assumes "companies s cid = Some co" and "CounterWrite \<notin> flt"
  shows "decimal_value (toString (c_currentAssetId co)) = c_currentAssetId co
       \<and> (CHR ''#'' \<notin> set pre \<and> CHR ''#'' \<notin> set post \<and> 0 < n
            \<and> c_assetIdPattern co = pre @ replicate n (CHR ''#'') @ post
          \<longrightarrow> fst (generateAssetId flt cid s)
                = Inr (pre @ replicate (n - length (toString (c_currentAssetId co))) (CHR ''0'')
                         @ toString (c_currentAssetId co) @ post))
       \<and> (CHR ''#'' \<notin> set (c_assetIdPattern co)
          \<longrightarrow> fst (generateAssetId flt cid s) = Inr (c_assetIdPattern co))
       \<and> (c_assetIdPattern co = ''A-####'' \<and> c_currentAssetId co = 7
          \<longrightarrow> fst (generateAssetId flt cid s) = Inr ''A-0007'')
       \<and> (c_assetIdPattern co = ''A-####'' \<and> c_currentAssetId co = 12345
          \<longrightarrow> fst (generateAssetId flt cid s) = Inr ''A-12345'')
       \<and> (c_assetIdPattern co = ''ITEM''
          \<longrightarrow> fst (generateAssetId flt cid s) = Inr ''ITEM'')"
proof -
  have g: "fst (generateAssetId flt cid s)
             = Inr (formatAssetId (c_assetIdPattern co) (c_currentAssetId co))"
    using assms by (simp add: generateAssetId_ok)
  have run: "formatAssetId (pre @ replicate n (CHR ''#'') @ post) c
               = pre @ replicate (n - length (toString c)) (CHR ''0'') @ toString c @ post"
    if "CHR ''#'' \<notin> set pre" "CHR ''#'' \<notin> set post" "0 < n" for c
  proof -
    have "post = [] \<or> hd post \<noteq> CHR ''#''" using that(2) by (cases post) auto
    with that show ?thesis
      by (simp add: formatAssetId_run formatAssetId_plain padStart_replicate)
  qed
  have seven: "formatAssetId ''A-####'' 7 = ''A-0007''"
    by (simp add: formatAssetId_def padStart_def toString.simps digit_char_def)
  have big: "formatAssetId ''A-####'' 12345 = ''A-12345''"
    by (simp add: formatAssetId_def padStart_def toString.simps digit_char_def)
  have lit: "formatAssetId ''ITEM'' c = ''ITEM''" for c
    by (simp add: formatAssetId_plain)
  show ?thesis
    using run [of "c_currentAssetId co"]
    by (simp add: g formatAssetId_plain seven big lit decimal_value_toString)
qed

theorem generateAssetId_single_run_witness:
  "fst (generateAssetId {} 1 (demo_storage ''A-####'' 7)) = Inr ''A-0007''
   \<and> fst (generateAssetId {} 1 (demo_storage ''A-####'' 12345)) = Inr ''A-12345''
   \<and> fst (generateAssetId {} 1 (demo_storage ''ITEM'' 3)) = Inr ''ITEM''
   \<and> fst (generateAssetId {} 1 (demo_storage ''X##Y'' 5)) = Inr ''X05Y''"
  using generateAssetId_single_run [of "demo_storage ''A-####'' 7" 1 "demo_company ''A-####'' 7" "{}" "''A-''" "''''" 4]
    generateAssetId_single_run [of "demo_storage ''A-####'' 12345" 1 "demo_company ''A-####'' 12345" "{}" "''A-''" "''''" 4]
    generateAssetId_single_run [of "demo_storage ''ITEM'' 3" 1 "demo_company ''ITEM'' 3" "{}" "''''" "''''" 1]
    generateAssetId_single_run [of "demo_storage ''X##Y'' 5" 1 "demo_company ''X##Y'' 5" "{}" "''X''" "''Y''" 2]
  by (simp add: demo_defs toString.simps digit_char_def replicate_numeral)

text \<open>
  C2, as stated, fails: with pattern \<^verbatim>\<open>##-##\<close> and counter 7 the second run is
  replaced as well, and the result is \<^verbatim>\<open>07-07\<close>, not \<^verbatim>\<open>07-##\<close>.
\<close>

theorem generateAssetId_second_run_counterexample:
  "fst (generateAssetId {} 1 (demo_storage ''##-##'' 7)) = Inr ''07-07''
   \<and> fst (generateAssetId {} 1 (demo_storage ''##-##'' 7)) \<noteq> Inr ''07-##''"
  by (simp add: generateAssetId_def getCompany_def demo_defs formatAssetId_def padStart_def
      toString.simps digit_char_def)

text \<open>
  C2, amended. The replacement is global: the first run is replaced by the counter padded
  to that run's length, and the rest of the pattern is rendered by the same rule, so
  every later run is replaced too, each padded to its own length.
\<close>

theorem generateAssetId_every_run:
  assumes "companies s cid = Some co" and "CounterWrite \<notin> flt"
    and "c_assetIdPattern co = pre @ replicate n (CHR ''#'') @ rest"
    and "CHR ''#'' \<notin> set pre" and "0 < n" and "rest = [] \<or> hd rest \<noteq> CHR ''#''"
  shows "fst (generateAssetId flt cid s)
           = Inr (pre @ replicate (n - length (toString (c_currentAssetId co))) (CHR ''0'')
                    @ toString (c_currentAssetId co)
                    @ formatAssetId rest (c_currentAssetId co))"
  using assms by (simp add: generateAssetId_ok formatAssetId_run padStart_replicate)

theorem generateAssetId_every_run_witness:
  "fst (generateAssetId {} 1 (demo_storage ''##-##'' 7)) = Inr (''07'' @ formatAssetId ''-##'' 7)
   \<and> formatAssetId ''-##'' 7 = ''-07''"
  using generateAssetId_every_run [of "demo_storage ''##-##'' 7" 1 "demo_company ''##-##'' 7" "{}" "''''" 2 "''-##''"]
  by (simp add: demo_defs toString.simps digit_char_def formatAssetId_def padStart_def
      replicate_numeral)

text \<open>
  C10. A successful \<open>generateAssetId\<close> found the company, leaves it with the counter
  raised by exactly 1 and every other field as it was, touches no other company and no
  other table; this holds whatever the pattern is, with or without a placeholder.
\<close>

theorem generateAssetId_counter:
  assumes "generateAssetId flt cid s = (Inr assetId, s')"
  shows "\<exists>co. companies s cid = Some co
           \<and> companies s' cid = Some (co\<lparr>c_currentAssetId := c_currentAssetId co + 1\<rparr>)
           \<and> (\<forall>k. k \<noteq> cid \<longrightarrow> companies s' k = companies s k)
           \<and> s' = s\<lparr>companies := companies s'\<rparr>
           \<and> assetId = formatAssetId (c_assetIdPattern co) (c_currentAssetId co)"
  using assms
  by (auto simp: generateAssetId_def getCompany_def Let_def split: option.splits if_splits)

theorem generateAssetId_counter_witness:
  "generateAssetId {} 1 (demo_storage ''ITEM'' 3)
     = (Inr ''ITEM'', (demo_storage ''ITEM'' 3)\<lparr>companies := [1 \<mapsto> demo_company ''ITEM'' 4]\<rparr>)
   \<and> (\<exists>co. companies (demo_storage ''ITEM'' 3) 1 = Some co
        \<and> companies ((demo_storage ''ITEM'' 3)\<lparr>companies := [1 \<mapsto> demo_company ''ITEM'' 4]\<rparr>) 1
            = Some (co\<lparr>c_currentAssetId := c_currentAssetId co + 1\<rparr>))"
proof -
  have e: "generateAssetId {} 1 (demo_storage ''ITEM'' 3)
     = (Inr ''ITEM'', (demo_storage ''ITEM'' 3)\<lparr>companies := [1 \<mapsto> demo_company ''ITEM'' 4]\<rparr>)"
    by (simp add: generateAssetId_def getCompany_def demo_defs formatAssetId_def)
  from generateAssetId_counter [OF e] show ?thesis using e by auto
qed

section \<open>Effects of the storage calls\<close>

lemma merge_counters [simp]:
  "d_assetCount (merge_department d (counters_patch a c)) = a"
  "d_capacityUsed (merge_department d (counters_patch a c)) = c"
  "d_id (merge_department d (counters_patch a c)) = d_id d"
  "d_name (merge_department d (counters_patch a c)) = d_name d"
  "d_companyId (merge_department d (counters_patch a c)) = d_companyId d"
  by (simp_all add: merge_department_def counters_patch_def)

lemma createInventoryItem_companies:
  "companies (snd (createInventoryItem {} now itemData s)) =
     (case companies s (n_companyId itemData) of
        None \<Rightarrow> companies s
      | Some co \<Rightarrow> (companies s)(n_companyId itemData \<mapsto> co\<lparr>c_currentAssetId := c_currentAssetId co + 1\<rparr>))"
  by (auto simp: createInventoryItem_def newInventoryItem_def generateAssetId_def getCompany_def
      getDepartment_def
      updateDepartment_def Let_def split: option.splits prod.splits sum.splits)

lemma createInventoryItem_departments:
  "departments (snd (createInventoryItem {} now itemData s)) =
     (case companies s (n_companyId itemData) of
        None \<Rightarrow> departments s
      | Some co \<Rightarrow>
         (case departments s (n_departmentId itemData) of
            None \<Rightarrow> departments s
          | Some dep \<Rightarrow>
             (case departments s (d_id dep) of
                None \<Rightarrow> departments s
              | Some dep' \<Rightarrow> (departments s)(d_id dep \<mapsto>
                   merge_department dep' (counters_patch (d_assetCount dep + 1) (d_capacityUsed dep + 10))))))"
  by (auto simp: createInventoryItem_def newInventoryItem_def generateAssetId_def getCompany_def
      getDepartment_def
      updateDepartment_def Let_def split: option.splits prod.splits sum.splits)

lemma updateInventoryItem_frame:
  "companies (snd (updateInventoryItem flt now rid data s)) = companies s"
  "departments (snd (updateInventoryItem flt now rid data s)) = departments s"
  "activityLogs (snd (updateInventoryItem flt now rid data s)) = activityLogs s"
  by (simp_all add: updateInventoryItem_def Let_def split: option.splits)

lemma deleteInventoryItem_companies:
  "companies (snd (deleteInventoryItem flt rid s)) = companies s"
  by (auto simp: deleteInventoryItem_def getDepartment_def updateDepartment_def Let_def
      split: option.splits prod.splits sum.splits)

lemma deleteInventoryItem_departments:
  "departments (snd (deleteInventoryItem {} rid s)) =
     (case inventoryItems s rid of
        None \<Rightarrow> departments s
      | Some item \<Rightarrow>
         (case departments s (i_departmentId item) of
            None \<Rightarrow> departments s
          | Some dep \<Rightarrow>
             (case departments s (d_id dep) of
                None \<Rightarrow> departments s
              | Some dep' \<Rightarrow> (departments s)(d_id dep \<mapsto>
                   merge_department dep'
                     (counters_patch (max 0 (d_assetCount dep - 1))
                                     (max 0 (d_capacityUsed dep - 10)))))))"
  by (auto simp: deleteInventoryItem_def getDepartment_def updateDepartment_def Let_def
      split: option.splits prod.splits sum.splits)

lemma deleteInventoryItem_items:
  "departments_wf s \<or> (\<exists>item dep. inventoryItems s rid = Some item
       \<and> departments s (i_departmentId item) = Some dep \<and> d_id dep = i_departmentId item)
   \<Longrightarrow> inventoryItems (snd (deleteInventoryItem {} rid s)) = (inventoryItems s)(rid := None)"
  by (auto simp: deleteInventoryItem_def getDepartment_def updateDepartment_def Let_def
      departments_wf_def split: option.splits prod.splits sum.splits)

lemma apply_op_nonneg: "dept_nonneg s \<Longrightarrow> dept_nonneg (apply_op x s)"
  by (cases x)
     (auto simp: dept_nonneg_def createInventoryItem_departments
        deleteInventoryItem_departments updateInventoryItem_frame split: option.splits)

lemma run_ops_nonneg: "dept_nonneg s \<Longrightarrow> dept_nonneg (run_ops xs s)"
  by (induction xs arbitrary: s) (simp_all add: apply_op_nonneg)

lemma run_ops_append: "run_ops (xs @ ys) s = run_ops ys (run_ops xs s)"
  by (induction xs arbitrary: s) simp_all

lemma creations_counters:
  assumes "departments s dpt = Some dep" and "d_id dep = dpt"
    and "\<forall>(now, itemData) \<in> set cs.
           n_departmentId itemData = dpt \<and> companies s (n_companyId itemData) \<noteq> None"
  shows "\<exists>dep'. departments (run_ops (map (\<lambda>(now, itemData). CreateItem now itemData) cs) s) dpt = Some dep'
           \<and> d_id dep' = dpt
           \<and> d_assetCount dep' = d_assetCount dep + int (length cs)
           \<and> d_capacityUsed dep' = d_capacityUsed dep + 10 * int (length cs)"
  using assms
proof (induction cs arbitrary: s dep)
  case Nil
  then show ?case by simp
next
  case (Cons x cs)
  obtain now itemData where x: "x = (now, itemData)" by (cases x)
  let ?s1 = "apply_op (CreateItem now itemData) s"
  let ?dep = "merge_department dep (counters_patch (d_assetCount dep + 1) (d_capacityUsed dep + 10))"
  from Cons.prems(3) x have t: "n_departmentId itemData = dpt"
    and c: "companies s (n_companyId itemData) \<noteq> None" by auto
  have d1: "departments ?s1 dpt = Some ?dep"
    using Cons.prems(1,2) t c by (auto simp: createInventoryItem_departments)
  have i1: "d_id ?dep = dpt" using Cons.prems(2) by simp
  have c1: "\<forall>(now, itemData) \<in> set cs.
           n_departmentId itemData = dpt \<and> companies ?s1 (n_companyId itemData) \<noteq> None"
    using Cons.prems(3) c by (auto simp: createInventoryItem_companies)
  from Cons.IH [OF d1 i1 c1] show ?case by (auto simp: x)
qed

lemma deletions_counters:
  assumes "departments s dpt = Some dep" and "d_id dep = dpt" and "distinct ids"
    and "\<forall>i \<in> set ids. \<exists>item. inventoryItems s i = Some item \<and> i_departmentId item = dpt"
    and "0 \<le> d_assetCount dep" and "0 \<le> d_capacityUsed dep"
  shows "\<exists>dep'. departments (run_ops (map DeleteItem ids) s) dpt = Some dep'
           \<and> d_id dep' = dpt
           \<and> d_assetCount dep' = max 0 (d_assetCount dep - int (length ids))
           \<and> d_capacityUsed dep' = max 0 (d_capacityUsed dep - 10 * int (length ids))"
  using assms
proof (induction ids arbitrary: s dep)
  case Nil
  then show ?case by simp
next
  case (Cons i ids)
  let ?s1 = "apply_op (DeleteItem i) s"
  let ?dep = "merge_department dep (counters_patch (max 0 (d_assetCount dep - 1)) (max 0 (d_capacityUsed dep - 10)))"
  from Cons.prems(4) obtain item where it: "inventoryItems s i = Some item"
    and t: "i_departmentId item = dpt" by auto
  have d1: "departments ?s1 dpt = Some ?dep"
    using Cons.prems(1,2) it t by (auto simp: deleteInventoryItem_departments)
  have i1: "d_id ?dep = dpt" using Cons.prems(2) by simp
  have "inventoryItems ?s1 = (inventoryItems s)(i := None)"
    using it t Cons.prems(1,2) by (simp add: deleteInventoryItem_items)
  with Cons.prems(3,4)
  have l1: "\<forall>j \<in> set ids. \<exists>item. inventoryItems ?s1 j = Some item \<and> i_departmentId item = dpt"
    by auto
  from Cons.prems(3) have dis: "distinct ids" by simp
  have n1: "0 \<le> d_assetCount ?dep" "0 \<le> d_capacityUsed ?dep" by simp_all
  from Cons.IH [OF d1 i1 dis l1 n1] show ?case by auto
qed

lemma demo_nonneg: "dept_nonneg (demo_storage p n)"
  by (simp add: dept_nonneg_def demo_defs)

lemma demo_run_items:
  "(\<exists>item. inventoryItems (run_ops demo_ops (demo_storage ''A-####'' 1)) 1 = Some item
        \<and> i_departmentId item = 1)
   \<and> (\<exists>item. inventoryItems (run_ops demo_ops (demo_storage ''A-####'' 1)) 2 = Some item
        \<and> i_departmentId item = 1)"
  by (simp add: demo_defs storage_defs Let_def)

lemma demo_run_mid:
  "departments (run_ops demo_ops (demo_storage ''A-####'' 1))
     = [1 \<mapsto> demo_department 1 ''General'' 2 20]"
  by (simp add: demo_defs storage_defs Let_def)


section \<open>Uniqueness of issued asset ids\<close>

lemma createInventoryItem_idCounter:
  "inventoryItemIdCounter (snd (createInventoryItem flt now itemData s)) = inventoryItemIdCounter s + 1"
  by (auto simp: createInventoryItem_def generateAssetId_def getCompany_def getDepartment_def
      updateDepartment_def Let_def split: option.splits)

lemma createInventoryItem_companies_any:
  "companies (snd (createInventoryItem flt now itemData s)) =
     (case companies s (n_companyId itemData) of
        None \<Rightarrow> companies s
      | Some co \<Rightarrow>
          if CounterWrite \<in> flt then companies s
          else (companies s)(n_companyId itemData \<mapsto>
                 co\<lparr>c_currentAssetId := c_currentAssetId co + 1\<rparr>))"
  by (auto simp: createInventoryItem_def generateAssetId_def getCompany_def getDepartment_def
      updateDepartment_def Let_def split: option.splits)

lemma createInventoryItem_items_any:
  "inventoryItems (snd (createInventoryItem flt now itemData s)) =
     (case companies s (n_companyId itemData) of
        None \<Rightarrow> inventoryItems s
      | Some co \<Rightarrow>
          if CounterWrite \<in> flt \<or> ItemWrite \<in> flt then inventoryItems s
          else (inventoryItems s)(inventoryItemIdCounter s \<mapsto>
                 newInventoryItem (inventoryItemIdCounter s)
                   (formatAssetId (c_assetIdPattern co) (c_currentAssetId co)) now itemData))"
  by (auto simp: createInventoryItem_def generateAssetId_def getCompany_def getDepartment_def
      updateDepartment_def Let_def split: option.splits)

lemma updateInventoryItem_items_any:
  "inventoryItems (snd (updateInventoryItem flt now rid data s)) = inventoryItems s
   \<or> (\<exists>item u. inventoryItems s rid = Some item
          \<and> inventoryItems (snd (updateInventoryItem flt now rid data s))
              = (inventoryItems s)(rid \<mapsto> u))"
  by (auto simp: updateInventoryItem_def Let_def split: option.splits)

lemma updateInventoryItem_idCounter:
  "inventoryItemIdCounter (snd (updateInventoryItem flt now rid data s)) = inventoryItemIdCounter s"
  by (auto simp: updateInventoryItem_def Let_def split: option.splits)

lemma deleteInventoryItem_items_any:
  "inventoryItems (snd (deleteInventoryItem flt rid s)) = inventoryItems s
   \<or> inventoryItems (snd (deleteInventoryItem flt rid s)) = (inventoryItems s)(rid := None)"
  by (auto simp: deleteInventoryItem_def getDepartment_def updateDepartment_def Let_def
      split: option.splits)

lemma deleteInventoryItem_idCounter:
  "inventoryItemIdCounter (snd (deleteInventoryItem flt rid s)) = inventoryItemIdCounter s"
  by (auto simp: deleteInventoryItem_def getDepartment_def updateDepartment_def Let_def
      split: option.splits)

lemma newInventoryItem_sel:
  "i_assetId (newInventoryItem k a now itemData) = a"
  "i_companyId (newInventoryItem k a now itemData) = n_companyId itemData"
  by (simp_all add: newInventoryItem_def)

lemma apply_call_fresh: "items_fresh s \<Longrightarrow> items_fresh (apply_call x s)"
proof -
  assume f: "items_fresh s"
  obtain flt o' where x: "x = (flt, o')" by (cases x)
  show ?thesis
  proof (cases o')
    case (CreateItem now itemData)
    with f x show ?thesis
      by (auto simp: items_fresh_def createInventoryItem_items_any createInventoryItem_idCounter
          less_Suc_eq split: option.splits if_splits)
  next
    case (UpdateItem now rid data)
    with f x updateInventoryItem_items_any [of flt now rid data s] show ?thesis
      by (auto simp: items_fresh_def updateInventoryItem_idCounter split: if_splits)
  next
    case (DeleteItem rid)
    with f x deleteInventoryItem_items_any [of flt rid s] show ?thesis
      by (auto simp: items_fresh_def deleteInventoryItem_idCounter split: if_splits)
  qed
qed

lemma apply_call_other_company:
  "(\<forall>flt now itemData. x = (flt, CreateItem now itemData) \<longrightarrow> n_companyId itemData \<noteq> c)
     \<Longrightarrow> companies (apply_call x s) c = companies s c"
proof -
  assume h: "\<forall>flt now itemData. x = (flt, CreateItem now itemData) \<longrightarrow> n_companyId itemData \<noteq> c"
  obtain flt o' where x: "x = (flt, o')" by (cases x)
  show ?thesis
  proof (cases o')
    case (CreateItem now itemData)
    with h x show ?thesis
      by (auto simp: createInventoryItem_companies_any split: option.splits)
  next
    case (UpdateItem now rid data)
    with x show ?thesis by (simp add: updateInventoryItem_frame)
  next
    case (DeleteItem rid)
    with x show ?thesis by (simp add: deleteInventoryItem_companies)
  qed
qed

lemma created_assetIds:
  assumes "companies s c = Some co" and "items_fresh s"
  shows "\<exists>cs. map i_assetId (filter (\<lambda>i. i_companyId i = c) (created_items xs s))
                 = map (formatAssetId (c_assetIdPattern co)) cs
             \<and> sorted_wrt (<) cs \<and> (\<forall>n \<in> set cs. c_currentAssetId co \<le> n)"
  using assms
proof (induction xs arbitrary: s co)
  case Nil
  show ?case by (intro exI [of _ "[]"]) simp
next
  case (Cons x xs)
  obtain flt o' where x: "x = (flt, o')" by (cases x)
  have fr: "items_fresh (apply_call x s)" using Cons.prems(2) by (rule apply_call_fresh)
  have none: "inventoryItems s (inventoryItemIdCounter s) = None"
    using Cons.prems(2) by (auto simp: items_fresh_def)
  show ?case
  proof (cases "\<exists>now itemData. o' = CreateItem now itemData")
    case False
    then have co: "companies (apply_call x s) c = Some co"
      using apply_call_other_company [of x c s] x Cons.prems(1) by auto
    from False x have "created_items (x # xs) s = created_items xs (apply_call x s)"
      by (cases o') auto
    with Cons.IH [OF co fr] show ?thesis by simp
  next
    case True
    then obtain now itemData where o': "o' = CreateItem now itemData" by blast
    let ?s1 = "apply_call x s"
    let ?k = "inventoryItemIdCounter s"
    show ?thesis
    proof (cases "n_companyId itemData = c")
      case other: False
      then have co: "companies ?s1 c = Some co"
        using apply_call_other_company [of x c s] x o' Cons.prems(1) by auto
      from Cons.IH [OF co fr] obtain cs where
        cs: "map i_assetId (filter (\<lambda>i. i_companyId i = c) (created_items xs ?s1))
                 = map (formatAssetId (c_assetIdPattern co)) cs"
          "sorted_wrt (<) cs" "\<forall>n \<in> set cs. c_currentAssetId co \<le> n" by blast
      have "filter (\<lambda>i. i_companyId i = c) (created_items (x # xs) s)
              = filter (\<lambda>i. i_companyId i = c) (created_items xs ?s1)"
        using other none
        by (auto simp: x o' createInventoryItem_items_any newInventoryItem_sel
            split: option.splits)
      with cs show ?thesis by auto
    next
      case same: True
      show ?thesis
      proof (cases "CounterWrite \<in> flt")
        case cw: True
        have co: "companies ?s1 c = Some co"
          using cw same Cons.prems(1) by (simp add: x o' createInventoryItem_companies_any)
        from Cons.IH [OF co fr] obtain cs where
          cs: "map i_assetId (filter (\<lambda>i. i_companyId i = c) (created_items xs ?s1))
                 = map (formatAssetId (c_assetIdPattern co)) cs"
            "sorted_wrt (<) cs" "\<forall>n \<in> set cs. c_currentAssetId co \<le> n" by blast
        have "created_items (x # xs) s = created_items xs ?s1"
          using cw same none Cons.prems(1)
          by (simp add: x o' createInventoryItem_items_any)
        with cs show ?thesis by auto
      next
        case cw: False
        let ?co = "co\<lparr>c_currentAssetId := c_currentAssetId co + 1\<rparr>"
        have co: "companies ?s1 c = Some ?co"
          using cw same Cons.prems(1) by (simp add: x o' createInventoryItem_companies_any)
        from Cons.IH [OF co fr] obtain cs where
          cs: "map i_assetId (filter (\<lambda>i. i_companyId i = c) (created_items xs ?s1))
                 = map (formatAssetId (c_assetIdPattern co)) cs"
            "sorted_wrt (<) cs" "\<forall>n \<in> set cs. c_currentAssetId co + 1 \<le> n" by auto
        show ?thesis
        proof (cases "ItemWrite \<in> flt")
          case iw: True
          have "created_items (x # xs) s = created_items xs ?s1"
            using iw same none Cons.prems(1)
            by (simp add: x o' createInventoryItem_items_any)
          with cs show ?thesis by (intro exI [of _ cs]) auto
        next
          case iw: False
          let ?item = "newInventoryItem ?k
                   (formatAssetId (c_assetIdPattern co) (c_currentAssetId co)) now itemData"
          have "created_items (x # xs) s = ?item # created_items xs ?s1"
            using iw cw same Cons.prems(1)
            by (simp add: x o' createInventoryItem_items_any)
          with cs same show ?thesis
            by (intro exI [of _ "c_currentAssetId co # cs"])
               (auto simp: newInventoryItem_sel)
        qed
      qed
    qed
  qed
qed

lemma distinct_map_formatAssetId_list:
  assumes "CHR ''#'' \<in> set p" and "sorted_wrt (<) (cs :: nat list)"
  shows "distinct (map (formatAssetId p) cs)"
proof -
  have "inj_on (formatAssetId p) (set cs)"
    using assms(1) by (auto intro!: inj_onI dest: formatAssetId_inj)
  moreover have "distinct cs" using assms(2) by (simp add: strict_sorted_iff)
  ultimately show ?thesis by (simp add: distinct_map)
qed

lemma demo_fresh: "items_fresh (demo_storage p n)"
  by (simp add: items_fresh_def demo_defs)

lemma demo_calls_created:
  "map i_assetId (created_items demo_calls (demo_storage ''A-####'' 1)) = [''A-0001'', ''A-0003'']"
  by (simp add: demo_defs demo_calls_def storage_defs formatAssetId_def padStart_def
      toString.simps digit_char_def Let_def)


text \<open>
  C4, as stated, fails: with the pattern \<^verbatim>\<open>ITEM\<close>, which has no placeholder, two
  creations in one tenant both receive the asset id \<^verbatim>\<open>ITEM\<close>.
\<close>

theorem assetId_not_unique_counterexample:
  "map i_assetId (created_items (map (Pair {}) demo_ops) (demo_storage ''ITEM'' 1))
     = [''ITEM'', ''ITEM'']
   \<and> \<not> distinct (map i_assetId (created_items (map (Pair {}) demo_ops) (demo_storage ''ITEM'' 1)))"
  by (simp add: demo_defs storage_defs formatAssetId_def Let_def)


text \<open>
  C4, amended. When the tenant's pattern has at least one placeholder, the asset ids of
  the rows that the creations of a run store for that tenant are pairwise distinct, and
  they are the renderings of counter values that strictly increase with creation order
  (none below the tenant's counter before the run). The run may contain creations of other
  tenants, updates and deletions, and the store may reject any of the writes: a creation
  whose item write is rejected after the counter write leaves a gap in the counter values.
\<close>

theorem assetId_unique_increasing:
  assumes "companies s c = Some co" and "items_fresh s"
    and "CHR ''#'' \<in> set (c_assetIdPattern co)"
  shows "distinct (map i_assetId (filter (\<lambda>i. i_companyId i = c) (created_items xs s)))
       \<and> (\<exists>cs. map i_assetId (filter (\<lambda>i. i_companyId i = c) (created_items xs s))
                  = map (formatAssetId (c_assetIdPattern co)) cs
              \<and> sorted_wrt (<) cs \<and> (\<forall>n \<in> set cs. c_currentAssetId co \<le> n))"
proof -
  from created_assetIds [OF assms(1,2), of xs] obtain cs where
    cs: "map i_assetId (filter (\<lambda>i. i_companyId i = c) (created_items xs s))
                  = map (formatAssetId (c_assetIdPattern co)) cs"
      "sorted_wrt (<) cs" "\<forall>n \<in> set cs. c_currentAssetId co \<le> n" by blast
  from distinct_map_formatAssetId_list [OF assms(3) cs(2)] cs show ?thesis by auto
qed


theorem assetId_unique_increasing_witness:
  "items_fresh (demo_storage ''A-####'' 1)
   \<and> map i_assetId (created_items demo_calls (demo_storage ''A-####'' 1)) = [''A-0001'', ''A-0003'']
   \<and> distinct (map i_assetId (filter (\<lambda>i. i_companyId i = 1)
        (created_items demo_calls (demo_storage ''A-####'' 1))))"
proof -
  have h1: "companies (demo_storage ''A-####'' 1) 1 = Some (demo_company ''A-####'' 1)"
    by (simp add: demo_defs)
  have h3: "CHR ''#'' \<in> set (c_assetIdPattern (demo_company ''A-####'' 1))"
    by (simp add: demo_defs)
  from assetId_unique_increasing [OF h1 demo_fresh h3, of demo_calls]
  have d: "distinct (map i_assetId (filter (\<lambda>i. i_companyId i = 1)
      (created_items demo_calls (demo_storage ''A-####'' 1))))"
    by (rule conjunct1)
  show ?thesis using d demo_fresh demo_calls_created by blast
qed

section \<open>Department counters\<close>

text \<open>
  C7. Starting from a store whose department counters are not negative, no counter is
  negative after any prefix of any run of creations, updates and deletions. And when a
  department with both counters at 0 receives N successful creations and then N distinct
  live items of that department are deleted, both counters are 0 again.
\<close>

theorem department_counters:
  "(dept_nonneg s \<longrightarrow> (\<forall>n. dept_nonneg (run_ops (take n xs) s)))
   \<and> (departments s dpt = Some dep \<and> d_id dep = dpt
        \<and> d_assetCount dep = 0 \<and> d_capacityUsed dep = 0
        \<and> (\<forall>(now, itemData) \<in> set cs.
              n_departmentId itemData = dpt \<and> companies s (n_companyId itemData) \<noteq> None)
        \<and> distinct ids \<and> length ids = length cs
        \<and> (\<forall>i \<in> set ids. \<exists>item.
              inventoryItems (run_ops (map (\<lambda>(now, itemData). CreateItem now itemData) cs) s) i
                = Some item \<and> i_departmentId item = dpt)
      \<longrightarrow> (\<exists>dep'. departments
                    (run_ops (map (\<lambda>(now, itemData). CreateItem now itemData) cs
                              @ map DeleteItem ids) s) dpt = Some dep'
                 \<and> d_assetCount dep' = 0 \<and> d_capacityUsed dep' = 0))"
proof (intro conjI impI allI)
  fix n
  assume "dept_nonneg s"
  then show "dept_nonneg (run_ops (take n xs) s)" by (rule run_ops_nonneg)
next
  let ?s1 = "run_ops (map (\<lambda>(now, itemData). CreateItem now itemData) cs) s"
  assume h: "departments s dpt = Some dep \<and> d_id dep = dpt
        \<and> d_assetCount dep = 0 \<and> d_capacityUsed dep = 0
        \<and> (\<forall>(now, itemData) \<in> set cs.
              n_departmentId itemData = dpt \<and> companies s (n_companyId itemData) \<noteq> None)
        \<and> distinct ids \<and> length ids = length cs
        \<and> (\<forall>i \<in> set ids. \<exists>item. inventoryItems ?s1 i = Some item \<and> i_departmentId item = dpt)"
  then have h1: "departments s dpt = Some dep" and h2: "d_id dep = dpt"
    and h3: "\<forall>(now, itemData) \<in> set cs.
              n_departmentId itemData = dpt \<and> companies s (n_companyId itemData) \<noteq> None"
    by blast+
  from creations_counters [OF h1 h2 h3] h obtain dep1 where
    d1: "departments ?s1 dpt = Some dep1" and i1: "d_id dep1 = dpt"
    and a1: "d_assetCount dep1 = int (length cs)"
    and c1: "d_capacityUsed dep1 = 10 * int (length cs)" by auto
  from h have dis: "distinct ids" and len: "length ids = length cs"
    and live: "\<forall>i \<in> set ids. \<exists>item. inventoryItems ?s1 i = Some item \<and> i_departmentId item = dpt"
    by blast+
  have n1: "0 \<le> d_assetCount dep1" "0 \<le> d_capacityUsed dep1" using a1 c1 by simp_all
  from deletions_counters [OF d1 i1 dis live n1] a1 c1 len
  show "\<exists>dep'. departments
                    (run_ops (map (\<lambda>(now, itemData). CreateItem now itemData) cs
                              @ map DeleteItem ids) s) dpt = Some dep'
                 \<and> d_assetCount dep' = 0 \<and> d_capacityUsed dep' = 0"
    by (auto simp: run_ops_append)
qed


theorem department_counters_witness:
  "dept_nonneg (demo_storage ''A-####'' 1)
   \<and> dept_nonneg (run_ops (take 3 (demo_ops @ map DeleteItem [1, 2])) (demo_storage ''A-####'' 1))
   \<and> departments (run_ops demo_ops (demo_storage ''A-####'' 1)) 1
        = Some (demo_department 1 ''General'' 2 20)
   \<and> (\<exists>dep'. departments (run_ops (demo_ops @ map DeleteItem [1, 2]) (demo_storage ''A-####'' 1)) 1
                = Some dep' \<and> d_assetCount dep' = 0 \<and> d_capacityUsed dep' = 0)"
proof -
  let ?s = "demo_storage ''A-####'' 1"
  note w = department_counters [of ?s "demo_ops @ map DeleteItem [1, 2]" 1
      "demo_department 1 ''General'' 0 0" demo_creations "[1, 2]"]
  have p1: "dept_nonneg (run_ops (take 3 (demo_ops @ map DeleteItem [1, 2])) ?s)"
    using w demo_nonneg by blast
  have live: "\<forall>i \<in> set [1, 2 :: nat]. \<exists>item.
      inventoryItems (run_ops (map (\<lambda>(now, itemData). CreateItem now itemData) demo_creations) ?s) i
        = Some item \<and> i_departmentId item = 1"
    using demo_run_items by (auto simp: demo_ops_def)
  have pre: "departments ?s 1 = Some (demo_department 1 ''General'' 0 0)
      \<and> d_id (demo_department 1 ''General'' 0 0) = 1
      \<and> d_assetCount (demo_department 1 ''General'' 0 0) = 0
      \<and> d_capacityUsed (demo_department 1 ''General'' 0 0) = 0
      \<and> (\<forall>(now, itemData) \<in> set demo_creations.
              n_departmentId itemData = 1 \<and> companies ?s (n_companyId itemData) \<noteq> None)
      \<and> distinct [1, 2 :: nat] \<and> length [1, 2 :: nat] = length demo_creations"
    by (simp add: demo_defs)
  have p2: "\<exists>dep'. departments (run_ops (demo_ops @ map DeleteItem [1, 2]) ?s) 1
                = Some dep' \<and> d_assetCount dep' = 0 \<and> d_capacityUsed dep' = 0"
    using w pre live unfolding demo_ops_def by blast
  show ?thesis using p1 p2 demo_nonneg demo_run_mid by simp
qed

section \<open>Effects of the routes\<close>

lemma demo_stocked_reached:
  "snd (createInventoryItem {} 10 (demo_insert 1 ''Drill'')
         (snd (createDepartment 0 \<lparr>nd_name = ''Tools'', nd_companyId = 1\<rparr>
                (demo_storage ''A-####'' 1)))) = demo_stocked"
  by (auto simp add: demo_defs sample_defs storage_defs createDepartment_def formatAssetId_def
      padStart_def toString.simps digit_char_def Let_def fun_eq_iff)

lemma createActivityLog_frame:
  "companies (snd (createActivityLog flt now l s)) = companies s"
  "departments (snd (createActivityLog flt now l s)) = departments s"
  "inventoryItems (snd (createActivityLog flt now l s)) = inventoryItems s"
  by (simp_all add: createActivityLog_def Let_def)

lemma updateInventoryItem_cases:
  "updateInventoryItem flt now rid data s = (r, s1) \<Longrightarrow>
     (ItemWrite \<in> flt \<and> r = Inl (StoreRejected ItemWrite) \<and> s1 = s)
   \<or> (ItemWrite \<notin> flt \<and> inventoryItems s rid = None \<and> r = Inl (ItemNotFound rid) \<and> s1 = s)
   \<or> (\<exists>item. ItemWrite \<notin> flt \<and> inventoryItems s rid = Some item
          \<and> r = Inr ((merge_item item data)\<lparr>i_updatedAt := now\<rparr>)
          \<and> s1 = s\<lparr>inventoryItems := (inventoryItems s)(rid \<mapsto> (merge_item item data)\<lparr>i_updatedAt := now\<rparr>)\<rparr>)"
  by (auto simp: updateInventoryItem_def Let_def split: option.splits if_splits)

lemma put_inventory_departments:
  "departments (snd (put_inventory flt user rid data now now' s)) = departments s"
  by (simp add: put_inventory_def case_prod_beta sum.case_eq_if option.case_eq_if
      updateInventoryItem_frame createActivityLog_frame)

lemma merge_item_sel:
  "i_assetId (merge_item item data) = (case p_assetId data of None \<Rightarrow> i_assetId item | Some v \<Rightarrow> v)"
  "i_departmentId (merge_item item data)
     = (case p_departmentId data of None \<Rightarrow> i_departmentId item | Some v \<Rightarrow> v)"
  "i_name (merge_item item data) = (case p_name data of None \<Rightarrow> i_name item | Some v \<Rightarrow> v)"
  "i_id (merge_item item data) = (case p_id data of None \<Rightarrow> i_id item | Some v \<Rightarrow> v)"
  by (simp_all add: merge_item_def)

lemma createActivityLog_cases:
  "createActivityLog flt now l s = (r, s1) \<Longrightarrow>
     (LogWrite \<in> flt \<and> r = Inl (StoreRejected LogWrite) \<and> s1 = s)
   \<or> (LogWrite \<notin> flt
       \<and> (\<exists>row. r = Inr row \<and> l_id row = activityLogIdCounter s \<and> l_action row = nl_action l
            \<and> l_itemId row = nl_itemId l \<and> l_assetId row = nl_assetId l
            \<and> l_itemName row = nl_itemName l \<and> l_departmentName row = nl_departmentName l
            \<and> l_userId row = nl_userId l \<and> l_userName row = nl_userName l
            \<and> l_companyId row = nl_companyId l \<and> l_createdAt row = now
            \<and> s1 = s\<lparr>activityLogIdCounter := activityLogIdCounter s + 1,
                      activityLogs := (activityLogs s)(activityLogIdCounter s \<mapsto> row)\<rparr>))"
  by (auto simp: createActivityLog_def Let_def split: if_splits)

lemma departmentNameOrUnknown_eq:
  "departmentNameOrUnknown d s =
     (case departments s d of
        None \<Rightarrow> ''Unknown''
      | Some dep \<Rightarrow> if d_name dep = [] then ''Unknown'' else d_name dep)"
  by (simp add: departmentNameOrUnknown_def getDepartment_def or_string_def split: option.splits)

lemma departmentNameOrUnknown_cong:
  "departments s1 = departments s2 \<Longrightarrow> departmentNameOrUnknown d s1 = departmentNameOrUnknown d s2"
  by (simp add: departmentNameOrUnknown_eq)

lemma put_inventory_ok:
  assumes "put_inventory flt user rid data now now' s = (Response 200 b, s')"
  shows "\<exists>existing u row. inventoryItems s rid = Some existing
           \<and> i_companyId existing = u_companyId user
           \<and> u = (merge_item existing (data\<lparr>p_updatedBy := Some (u_id user)\<rparr>))\<lparr>i_updatedAt := now\<rparr>
           \<and> b = Item u
           \<and> inventoryItems s' = (inventoryItems s)(rid \<mapsto> u)
           \<and> departments s' = departments s \<and> companies s' = companies s
           \<and> activityLogs s' = (activityLogs s)(activityLogIdCounter s \<mapsto> row)
           \<and> activityLogIdCounter s' = activityLogIdCounter s + 1
           \<and> l_action row = ''updated'' \<and> l_itemId row = i_id u \<and> l_assetId row = i_assetId u
           \<and> l_itemName row = i_name u
           \<and> l_departmentName row = departmentNameOrUnknown (i_departmentId u) s'"
proof -
  from assms obtain existing where e: "inventoryItems s rid = Some existing"
    and c: "i_companyId existing = u_companyId user"
    by (auto simp: put_inventory_def getInventoryItem_def split: option.splits if_splits)
  obtain r s1 where up: "updateInventoryItem flt now rid (data\<lparr>p_updatedBy := Some (u_id user)\<rparr>) s = (r, s1)"
    by (cases "updateInventoryItem flt now rid (data\<lparr>p_updatedBy := Some (u_id user)\<rparr>) s")
  let ?u = "(merge_item existing (data\<lparr>p_updatedBy := Some (u_id user)\<rparr>))\<lparr>i_updatedAt := now\<rparr>"
  from assms e c up have r: "r = Inr ?u"
    and s1: "s1 = s\<lparr>inventoryItems := (inventoryItems s)(rid \<mapsto> ?u)\<rparr>"
    using updateInventoryItem_cases [OF up]
    by (auto simp: put_inventory_def getInventoryItem_def split: if_splits sum.splits prod.splits)
  let ?l = "\<lparr>nl_action = ''updated'', nl_itemId = i_id ?u, nl_assetId = i_assetId ?u,
             nl_itemName = i_name ?u,
             nl_departmentName = departmentNameOrUnknown (i_departmentId ?u) s1,
             nl_userId = u_id user, nl_userName = u_name user, nl_companyId = u_companyId user\<rparr>"
  obtain r2 s2 where lg: "createActivityLog flt now' ?l s1 = (r2, s2)"
    by (cases "createActivityLog flt now' ?l s1")
  from assms e c up r lg have b: "b = Item ?u" and s2: "s' = s2" and ok: "\<exists>row. r2 = Inr row"
    by (auto simp: put_inventory_def getInventoryItem_def split: if_splits sum.splits prod.splits)
  from createActivityLog_cases [OF lg] ok obtain row where
    row: "l_action row = ''updated''" "l_itemId row = i_id ?u" "l_assetId row = i_assetId ?u"
      "l_itemName row = i_name ?u"
      "l_departmentName row = departmentNameOrUnknown (i_departmentId ?u) s1"
    and s2': "s2 = s1\<lparr>activityLogIdCounter := activityLogIdCounter s1 + 1,
                      activityLogs := (activityLogs s1)(activityLogIdCounter s1 \<mapsto> row)\<rparr>"
    by auto
  have dn: "departmentNameOrUnknown (i_departmentId ?u) s1 = departmentNameOrUnknown (i_departmentId ?u) s'"
    by (rule departmentNameOrUnknown_cong) (simp add: s2 s2' s1)
  show ?thesis
    using e c b row dn by (intro exI [of _ existing] exI [of _ ?u] exI [of _ row]) (simp add: s2 s2' s1)
qed

lemma merge_counters_eq:
  "merge_department d (counters_patch a c) = d\<lparr>d_assetCount := a, d_capacityUsed := c\<rparr>"
  by (simp add: merge_department_def counters_patch_def)

lemma createInventoryItem_faults:
  fixes flt :: "dbwrite set" and now :: timestamp
  assumes "companies s (n_companyId itemData) = Some co" and "departments_wf s"
  defines "k \<equiv> inventoryItemIdCounter s"
    and "dpt \<equiv> n_departmentId itemData"
    and "c1 \<equiv> CounterWrite \<notin> flt"
  defines "c2 \<equiv> c1 \<and> ItemWrite \<notin> flt"
  defines "c3 \<equiv> c2 \<and> (departments s dpt \<noteq> None \<longrightarrow> DepartmentWrite \<notin> flt)"
  defines "item \<equiv> newInventoryItem k (formatAssetId (c_assetIdPattern co) (c_currentAssetId co)) now itemData"
  defines "res \<equiv> createInventoryItem flt now itemData s"
  shows "companies (snd res)
           = (if c1 then (companies s)(n_companyId itemData \<mapsto> co\<lparr>c_currentAssetId := c_currentAssetId co + 1\<rparr>)
              else companies s)"
    and "inventoryItems (snd res) = (if c2 then (inventoryItems s)(k \<mapsto> item) else inventoryItems s)"
    and "departments (snd res)
           = (if c3 then (case departments s dpt of
                            None \<Rightarrow> departments s
                          | Some dep \<Rightarrow> (departments s)(dpt \<mapsto>
                              dep\<lparr>d_assetCount := d_assetCount dep + 1,
                                  d_capacityUsed := d_capacityUsed dep + 10\<rparr>))
              else departments s)"
    and "activityLogs (snd res) = activityLogs s"
    and "activityLogIdCounter (snd res) = activityLogIdCounter s"
    and "(\<exists>e. fst res = Inl e) \<longleftrightarrow> \<not> c3"
    and "c3 \<Longrightarrow> fst res = Inr item"
proof -
  have wf: "\<And>d. departments s dpt = Some d \<Longrightarrow> d_id d = dpt"
    using assms(2) by (simp add: departments_wf_def)
  show "companies (snd res)
           = (if c1 then (companies s)(n_companyId itemData \<mapsto> co\<lparr>c_currentAssetId := c_currentAssetId co + 1\<rparr>)
              else companies s)"
    using assms(1) wf unfolding res_def c1_def dpt_def
    by (auto simp: createInventoryItem_def generateAssetId_def getCompany_def getDepartment_def
        updateDepartment_def Let_def split: option.splits)
  show "inventoryItems (snd res) = (if c2 then (inventoryItems s)(k \<mapsto> item) else inventoryItems s)"
    using assms(1) wf unfolding res_def c1_def c2_def dpt_def item_def k_def
    by (auto simp: createInventoryItem_def generateAssetId_def getCompany_def getDepartment_def
        updateDepartment_def Let_def split: option.splits)
  show "departments (snd res)
           = (if c3 then (case departments s dpt of
                            None \<Rightarrow> departments s
                          | Some dep \<Rightarrow> (departments s)(dpt \<mapsto>
                              dep\<lparr>d_assetCount := d_assetCount dep + 1,
                                  d_capacityUsed := d_capacityUsed dep + 10\<rparr>))
              else departments s)"
    using assms(1) wf unfolding res_def c1_def c2_def c3_def dpt_def
    by (auto simp: createInventoryItem_def generateAssetId_def getCompany_def getDepartment_def
        updateDepartment_def merge_counters_eq Let_def split: option.splits)
  show "activityLogs (snd res) = activityLogs s"
    using assms(1) wf unfolding res_def dpt_def
    by (auto simp: createInventoryItem_def generateAssetId_def getCompany_def getDepartment_def
        updateDepartment_def Let_def split: option.splits)
  show "activityLogIdCounter (snd res) = activityLogIdCounter s"
    using assms(1) wf unfolding res_def dpt_def
    by (auto simp: createInventoryItem_def generateAssetId_def getCompany_def getDepartment_def
        updateDepartment_def Let_def split: option.splits)
  show "(\<exists>e. fst res = Inl e) \<longleftrightarrow> \<not> c3"
    using assms(1) wf unfolding res_def c1_def c2_def c3_def dpt_def
    by (auto simp: createInventoryItem_def generateAssetId_def getCompany_def getDepartment_def
        updateDepartment_def Let_def split: option.splits)
  show "c3 \<Longrightarrow> fst res = Inr item"
    using assms(1) wf unfolding res_def c1_def c2_def c3_def dpt_def item_def k_def
    by (auto simp: createInventoryItem_def generateAssetId_def getCompany_def getDepartment_def
        updateDepartment_def Let_def split: option.splits)
qed

lemma deleteInventoryItem_faults:
  fixes flt :: "dbwrite set"
  assumes "inventoryItems s rid = Some item" and "departments_wf s"
  defines "dpt \<equiv> i_departmentId item"
  defines "d1 \<equiv> departments s dpt \<noteq> None \<longrightarrow> DepartmentWrite \<notin> flt"
  defines "d2 \<equiv> d1 \<and> ItemWrite \<notin> flt"
  defines "res \<equiv> deleteInventoryItem flt rid s"
  shows "companies (snd res) = companies s"
    and "departments (snd res)
           = (if d1 then (case departments s dpt of
                            None \<Rightarrow> departments s
                          | Some dep \<Rightarrow> (departments s)(dpt \<mapsto>
                              dep\<lparr>d_assetCount := max 0 (d_assetCount dep - 1),
                                  d_capacityUsed := max 0 (d_capacityUsed dep - 10)\<rparr>))
              else departments s)"
    and "inventoryItems (snd res) = (if d2 then (inventoryItems s)(rid := None) else inventoryItems s)"
    and "activityLogs (snd res) = activityLogs s"
    and "activityLogIdCounter (snd res) = activityLogIdCounter s"
    and "(\<exists>e. fst res = Inl e) \<longleftrightarrow> \<not> d2"
proof -
  have wf: "\<And>d. departments s dpt = Some d \<Longrightarrow> d_id d = dpt"
    using assms(2) by (simp add: departments_wf_def)
  note defs = deleteInventoryItem_def getDepartment_def updateDepartment_def merge_counters_eq Let_def
  show "companies (snd res) = companies s"
    unfolding res_def by (simp add: deleteInventoryItem_companies)
  show "departments (snd res)
           = (if d1 then (case departments s dpt of
                            None \<Rightarrow> departments s
                          | Some dep \<Rightarrow> (departments s)(dpt \<mapsto>
                              dep\<lparr>d_assetCount := max 0 (d_assetCount dep - 1),
                                  d_capacityUsed := max 0 (d_capacityUsed dep - 10)\<rparr>))
              else departments s)"
    using assms(1) wf unfolding res_def d1_def dpt_def
    by (auto simp: defs split: option.splits)
  show "inventoryItems (snd res) = (if d2 then (inventoryItems s)(rid := None) else inventoryItems s)"
    using assms(1) wf unfolding res_def d1_def d2_def dpt_def
    by (auto simp: defs split: option.splits)
  show "activityLogs (snd res) = activityLogs s"
    using assms(1) wf unfolding res_def dpt_def by (auto simp: defs split: option.splits)
  show "activityLogIdCounter (snd res) = activityLogIdCounter s"
    using assms(1) wf unfolding res_def dpt_def by (auto simp: defs split: option.splits)
  show "(\<exists>e. fst res = Inl e) \<longleftrightarrow> \<not> d2"
    using assms(1) wf unfolding res_def d1_def d2_def dpt_def
    by (auto simp: defs split: option.splits)
qed

lemma createActivityLog_rejected:
  "LogWrite \<in> flt \<Longrightarrow> createActivityLog flt now l s = (Inl (StoreRejected LogWrite), s)"
  by (simp add: createActivityLog_def)

lemma createActivityLog_stored:
  "LogWrite \<notin> flt \<Longrightarrow>
   \<exists>row. createActivityLog flt now l s
            = (Inr row, s\<lparr>activityLogIdCounter := activityLogIdCounter s + 1,
                          activityLogs := (activityLogs s)(activityLogIdCounter s \<mapsto> row)\<rparr>)
        \<and> l_action row = nl_action l \<and> l_itemId row = nl_itemId l
        \<and> l_assetId row = nl_assetId l \<and> l_itemName row = nl_itemName l
        \<and> l_departmentName row = nl_departmentName l"
  by (simp add: createActivityLog_def Let_def)

lemma post_inventory_writes:
  fixes flt :: "dbwrite set" and now now' :: timestamp
  assumes acc: "u_role user = ''admin''
      \<or> list_ex (\<lambda>ud. Some (ud_departmentId ud) = p_departmentId req_body)
           (getUserDepartments (u_id user) s)"
    and dep: "p_departmentId req_body \<noteq> None" "p_departmentId req_body \<noteq> Some 0"
    and sch: "schema (req_body\<lparr>p_companyId := Some (u_companyId user),
                               p_createdBy := Some (u_id user),
                               p_updatedBy := Some (u_id user)\<rparr>) = Some itemData"
    and co: "companies s (n_companyId itemData) = Some co"
    and wf: "departments_wf s"
  defines "c1 \<equiv> CounterWrite \<notin> flt"
  defines "c2 \<equiv> c1 \<and> ItemWrite \<notin> flt"
  defines "c3 \<equiv> c2 \<and> (departments s (n_departmentId itemData) \<noteq> None \<longrightarrow> DepartmentWrite \<notin> flt)"
  defines "c4 \<equiv> c3 \<and> LogWrite \<notin> flt"
  defines "item \<equiv> newInventoryItem (inventoryItemIdCounter s)
                     (formatAssetId (c_assetIdPattern co) (c_currentAssetId co)) now itemData"
  defines "r \<equiv> post_inventory schema flt user req_body now now' s"
  shows "companies (snd r)
           = (if c1 then (companies s)(n_companyId itemData \<mapsto>
                 co\<lparr>c_currentAssetId := c_currentAssetId co + 1\<rparr>)
              else companies s)
       \<and> inventoryItems (snd r)
           = (if c2 then (inventoryItems s)(inventoryItemIdCounter s \<mapsto> item)
              else inventoryItems s)
       \<and> departments (snd r)
           = (if c3 then (case departments s (n_departmentId itemData) of
                            None \<Rightarrow> departments s
                          | Some dep \<Rightarrow> (departments s)(n_departmentId itemData \<mapsto>
                              dep\<lparr>d_assetCount := d_assetCount dep + 1,
                                  d_capacityUsed := d_capacityUsed dep + 10\<rparr>))
              else departments s)
       \<and> (if c4 then \<exists>row. activityLogs (snd r) = (activityLogs s)(activityLogIdCounter s \<mapsto> row)
                         \<and> l_action row = ''added'' \<and> l_assetId row = i_assetId item
           else activityLogs (snd r) = activityLogs s)
       \<and> fst r = (if c4 then Response 201 (Item item)
                  else Response 500 (Message ''Server error''))"
proof -
  let ?res = "createInventoryItem flt now itemData s"
  note cf = createInventoryItem_faults [OF co wf, of flt now]
  note cs = c1_def c2_def c3_def c4_def item_def
  have unfold: "r = (case ?res of
                (Inl e, s1) \<Rightarrow> (Response 500 (Message ''Server error''), s1)
              | (Inr item, s1) \<Rightarrow>
                  (case createActivityLog flt now'
                          \<lparr>nl_action = ''added'', nl_itemId = i_id item,
                           nl_assetId = i_assetId item, nl_itemName = i_name item,
                           nl_departmentName = departmentNameOrUnknown (i_departmentId item) s1,
                           nl_userId = u_id user, nl_userName = u_name user,
                           nl_companyId = u_companyId user\<rparr> s1 of
                     (Inl e, s2) \<Rightarrow> (Response 500 (Message ''Server error''), s2)
                   | (Inr _, s2) \<Rightarrow> (Response 201 (Item item), s2)))"
    using acc dep sch unfolding r_def by (auto simp: post_inventory_def Let_def)
  show ?thesis
  proof (cases c3)
    case False
    with cf(6) obtain e where e: "fst ?res = Inl e" by (auto simp: cs)
    then have r: "r = (Response 500 (Message ''Server error''), snd ?res)"
      unfolding unfold by (cases ?res) simp
    from False have "\<not> c4" by (simp add: c4_def)
    with False r cf(1-5) show ?thesis by (simp add: cs)
  next
    case True
    from cf(7) True have ok: "fst ?res = Inr item" by (simp add: cs)
    let ?l = "\<lparr>nl_action = ''added'', nl_itemId = i_id item,
               nl_assetId = i_assetId item, nl_itemName = i_name item,
               nl_departmentName = departmentNameOrUnknown (i_departmentId item) (snd ?res),
               nl_userId = u_id user, nl_userName = u_name user,
               nl_companyId = u_companyId user\<rparr>"
    have r: "r = (case createActivityLog flt now' ?l (snd ?res) of
                     (Inl e, s2) \<Rightarrow> (Response 500 (Message ''Server error''), s2)
                   | (Inr _, s2) \<Rightarrow> (Response 201 (Item item), s2))"
      using ok unfolding unfold by (cases ?res) simp
    show ?thesis
    proof (cases "LogWrite \<in> flt")
      case lw: True
      then have "\<not> c4" by (simp add: c4_def)
      moreover have "r = (Response 500 (Message ''Server error''), snd ?res)"
        unfolding r by (simp add: createActivityLog_rejected [OF lw])
      ultimately show ?thesis using True lw cf(1-5) by (auto simp: cs)
    next
      case lw: False
      with True have c4: c4 by (simp add: c4_def)
      from createActivityLog_stored [OF lw, of now' ?l "snd ?res"] obtain row where
        row: "createActivityLog flt now' ?l (snd ?res)
            = (Inr row, (snd ?res)\<lparr>activityLogIdCounter := activityLogIdCounter (snd ?res) + 1,
                 activityLogs := (activityLogs (snd ?res))(activityLogIdCounter (snd ?res) \<mapsto> row)\<rparr>)"
        and f: "l_action row = ''added''" "l_assetId row = i_assetId item" by auto
      have "r = (Response 201 (Item item), (snd ?res)\<lparr>activityLogIdCounter := activityLogIdCounter (snd ?res) + 1,
                 activityLogs := (activityLogs (snd ?res))(activityLogIdCounter (snd ?res) \<mapsto> row)\<rparr>)"
        unfolding r by (simp add: row)
      with c4 True lw cf(1-5) f show ?thesis by (auto simp: cs)
    qed
  qed
qed

lemma put_inventory_writes:
  fixes flt :: "dbwrite set" and now now' :: timestamp and req_body :: inventoryItem_patch
  assumes acc: "u_role user = ''admin''
      \<or> list_ex (\<lambda>ud. ud_departmentId ud = i_departmentId existingItem)
           (getUserDepartments (u_id user) s)"
    and it: "inventoryItems s itemId = Some existingItem"
    and own: "i_companyId existingItem = u_companyId user"
  defines "u1 \<equiv> ItemWrite \<notin> flt"
  defines "u2 \<equiv> u1 \<and> LogWrite \<notin> flt"
  defines "updatedItem \<equiv> (merge_item existingItem (req_body\<lparr>p_updatedBy := Some (u_id user)\<rparr>))
                            \<lparr>i_updatedAt := now\<rparr>"
  defines "r \<equiv> put_inventory flt user itemId req_body now now' s"
  shows "companies (snd r) = companies s
       \<and> departments (snd r) = departments s
       \<and> inventoryItems (snd r)
           = (if u1 then (inventoryItems s)(itemId \<mapsto> updatedItem) else inventoryItems s)
       \<and> (if u2 then \<exists>row. activityLogs (snd r) = (activityLogs s)(activityLogIdCounter s \<mapsto> row)
                         \<and> l_action row = ''updated'' \<and> l_assetId row = i_assetId updatedItem
           else activityLogs (snd r) = activityLogs s)
       \<and> fst r = (if u2 then Response 200 (Item updatedItem)
                  else Response 500 (Message ''Server error''))"
proof -
  note cs = u1_def u2_def updatedItem_def
  let ?data = "req_body\<lparr>p_updatedBy := Some (u_id user)\<rparr>"
  let ?l = "\<lambda>s1. \<lparr>nl_action = ''updated'', nl_itemId = i_id updatedItem,
               nl_assetId = i_assetId updatedItem, nl_itemName = i_name updatedItem,
               nl_departmentName = departmentNameOrUnknown (i_departmentId updatedItem) s1,
               nl_userId = u_id user, nl_userName = u_name user,
               nl_companyId = u_companyId user\<rparr>"
  show ?thesis
  proof (cases "ItemWrite \<in> flt")
    case True
    then have "r = (Response 500 (Message ''Server error''), s)"
      using acc it own unfolding r_def
      by (auto simp: put_inventory_def getInventoryItem_def updateInventoryItem_def)
    with True show ?thesis by (simp add: cs)
  next
    case False
    let ?s1 = "s\<lparr>inventoryItems := (inventoryItems s)(itemId \<mapsto> updatedItem)\<rparr>"
    have up: "updateInventoryItem flt now itemId ?data s = (Inr updatedItem, ?s1)"
      using False it by (simp add: updateInventoryItem_def Let_def updatedItem_def)
    have r: "r = (case createActivityLog flt now' (?l ?s1) ?s1 of
                     (Inl e, s2) \<Rightarrow> (Response 500 (Message ''Server error''), s2)
                   | (Inr _, s2) \<Rightarrow> (Response 200 (Item updatedItem), s2))"
      using acc it own unfolding r_def
      by (auto simp: put_inventory_def getInventoryItem_def up)
    show ?thesis
    proof (cases "LogWrite \<in> flt")
      case lw: True
      have "r = (Response 500 (Message ''Server error''), ?s1)"
        unfolding r by (simp add: createActivityLog_rejected [OF lw])
      with False lw show ?thesis by (simp add: cs)
    next
      case lw: False
      from createActivityLog_stored [OF lw, of now' "?l ?s1" ?s1] obtain row where
        row: "createActivityLog flt now' (?l ?s1) ?s1
            = (Inr row, ?s1\<lparr>activityLogIdCounter := activityLogIdCounter ?s1 + 1,
                 activityLogs := (activityLogs ?s1)(activityLogIdCounter ?s1 \<mapsto> row)\<rparr>)"
        and f: "l_action row = ''updated''" "l_assetId row = i_assetId updatedItem" by auto
      have "r = (Response 200 (Item updatedItem), ?s1\<lparr>activityLogIdCounter := activityLogIdCounter ?s1 + 1,
                 activityLogs := (activityLogs ?s1)(activityLogIdCounter ?s1 \<mapsto> row)\<rparr>)"
        unfolding r by (simp add: row)
      with False lw f show ?thesis unfolding u1_def u2_def by auto
    qed
  qed
qed

lemma delete_inventory_writes:
  fixes flt :: "dbwrite set" and now' :: timestamp
  assumes adm: "u_role user = ''admin''"
    and it: "inventoryItems s itemId = Some existingItem"
    and own: "i_companyId existingItem = u_companyId user"
    and wf: "departments_wf s"
  defines "d1 \<equiv> departments s (i_departmentId existingItem) \<noteq> None \<longrightarrow> DepartmentWrite \<notin> flt"
  defines "d2 \<equiv> d1 \<and> ItemWrite \<notin> flt"
  defines "d3 \<equiv> d2 \<and> LogWrite \<notin> flt"
  defines "r \<equiv> delete_inventory flt user itemId now' s"
  shows "companies (snd r) = companies s
       \<and> departments (snd r)
           = (if d1 then (case departments s (i_departmentId existingItem) of
                            None \<Rightarrow> departments s
                          | Some dep \<Rightarrow> (departments s)(i_departmentId existingItem \<mapsto>
                              dep\<lparr>d_assetCount := max 0 (d_assetCount dep - 1),
                                  d_capacityUsed := max 0 (d_capacityUsed dep - 10)\<rparr>))
              else departments s)
       \<and> inventoryItems (snd r)
           = (if d2 then (inventoryItems s)(itemId := None) else inventoryItems s)
       \<and> (if d3 then \<exists>row. activityLogs (snd r) = (activityLogs s)(activityLogIdCounter s \<mapsto> row)
                         \<and> l_action row = ''removed'' \<and> l_assetId row = i_assetId existingItem
           else activityLogs (snd r) = activityLogs s)
       \<and> fst r = (if d3 then Response 200 (Message ''Item deleted successfully'')
                  else Response 500 (Message ''Server error''))"
proof -
  note cs = d1_def d2_def d3_def
  let ?res = "deleteInventoryItem flt itemId s"
  note df = deleteInventoryItem_faults [OF it wf, of flt]
  let ?l = "\<lparr>nl_action = ''removed'', nl_itemId = itemId, nl_assetId = i_assetId existingItem,
             nl_itemName = i_name existingItem,
             nl_departmentName = departmentNameOrUnknown (i_departmentId existingItem) s,
             nl_userId = u_id user, nl_userName = u_name user,
             nl_companyId = u_companyId user\<rparr>"
  have unfold: "r = (case ?res of
                 (Inl e, s1) \<Rightarrow> (Response 500 (Message ''Server error''), s1)
               | (Inr _, s1) \<Rightarrow>
                   (case createActivityLog flt now' ?l s1 of
                      (Inl e, s2) \<Rightarrow> (Response 500 (Message ''Server error''), s2)
                    | (Inr _, s2) \<Rightarrow>
                        (Response 200 (Message ''Item deleted successfully''), s2)))"
    using adm it own unfolding r_def
    by (simp add: delete_inventory_def getInventoryItem_def Let_def)
  show ?thesis
  proof (cases d2)
    case False
    with df(6) obtain e where e: "fst ?res = Inl e" by (auto simp: cs)
    then have r: "r = (Response 500 (Message ''Server error''), snd ?res)"
      unfolding unfold by (cases ?res) simp
    from False have "\<not> d3" by (simp add: d3_def)
    with False r df(1-5) show ?thesis by (auto simp: cs)
  next
    case True
    with df(6) have "\<not> (\<exists>e. fst ?res = Inl e)" by (auto simp: cs)
    then obtain u where ok: "fst ?res = Inr u" by (cases "fst ?res") auto
    have r: "r = (case createActivityLog flt now' ?l (snd ?res) of
                      (Inl e, s2) \<Rightarrow> (Response 500 (Message ''Server error''), s2)
                    | (Inr _, s2) \<Rightarrow>
                        (Response 200 (Message ''Item deleted successfully''), s2))"
      using ok unfolding unfold by (cases ?res) simp
    show ?thesis
    proof (cases "LogWrite \<in> flt")
      case lw: True
      have "r = (Response 500 (Message ''Server error''), snd ?res)"
        unfolding r by (simp add: createActivityLog_rejected [OF lw])
      with True lw df(1-5) show ?thesis by (auto simp: cs)
    next
      case lw: False
      from createActivityLog_stored [OF lw, of now' ?l "snd ?res"] obtain row where
        row: "createActivityLog flt now' ?l (snd ?res)
            = (Inr row, (snd ?res)\<lparr>activityLogIdCounter := activityLogIdCounter (snd ?res) + 1,
                 activityLogs := (activityLogs (snd ?res))(activityLogIdCounter (snd ?res) \<mapsto> row)\<rparr>)"
        and f: "l_action row = ''removed''" "l_assetId row = i_assetId existingItem" by auto
      have "r = (Response 200 (Message ''Item deleted successfully''),
                 (snd ?res)\<lparr>activityLogIdCounter := activityLogIdCounter (snd ?res) + 1,
                 activityLogs := (activityLogs (snd ?res))(activityLogIdCounter (snd ?res) \<mapsto> row)\<rparr>)"
        unfolding r by (simp add: row)
      with True lw df(1-5) f show ?thesis by (auto simp: cs)
    qed
  qed
qed

lemma createInventoryItem_logs:
  "activityLogs (snd (createInventoryItem flt now itemData s)) = activityLogs s"
  "activityLogIdCounter (snd (createInventoryItem flt now itemData s)) = activityLogIdCounter s"
  by (auto simp: createInventoryItem_def generateAssetId_def getCompany_def getDepartment_def
      updateDepartment_def Let_def split: option.splits)

lemma updateInventoryItem_logs:
  "activityLogs (snd (updateInventoryItem flt now rid data s)) = activityLogs s"
  "activityLogIdCounter (snd (updateInventoryItem flt now rid data s)) = activityLogIdCounter s"
  by (auto simp: updateInventoryItem_def Let_def split: option.splits)

lemma deleteInventoryItem_logs:
  "activityLogs (snd (deleteInventoryItem flt rid s)) = activityLogs s"
  "activityLogIdCounter (snd (deleteInventoryItem flt rid s)) = activityLogIdCounter s"
  by (auto simp: deleteInventoryItem_def getDepartment_def updateDepartment_def Let_def
      split: option.splits)

lemma log_extends_refl: "log_extends s s"
  by (simp add: log_extends_def)

lemma log_extends_frame:
  "activityLogs s1 = activityLogs s \<Longrightarrow> activityLogIdCounter s1 = activityLogIdCounter s
     \<Longrightarrow> log_extends s s1"
  by (simp add: log_extends_def)

lemma log_extends_createActivityLog:
  "activityLogs s1 = activityLogs s \<Longrightarrow> activityLogIdCounter s1 = activityLogIdCounter s
     \<Longrightarrow> log_extends s (snd (createActivityLog flt now l s1))"
  by (auto simp: log_extends_def createActivityLog_def Let_def)

lemma post_inventory_log_extends:
  "log_extends s (snd (post_inventory schema flt user req_body now now' s))"
  by (simp add: post_inventory_def Let_def case_prod_beta sum.case_eq_if option.case_eq_if
      log_extends_refl log_extends_frame log_extends_createActivityLog createInventoryItem_logs)

lemma put_inventory_log_extends:
  "log_extends s (snd (put_inventory flt user itemId req_body now now' s))"
  by (simp add: put_inventory_def Let_def case_prod_beta sum.case_eq_if option.case_eq_if
      log_extends_refl log_extends_frame log_extends_createActivityLog updateInventoryItem_logs)

lemma delete_inventory_log_extends:
  "log_extends s (snd (delete_inventory flt user itemId now' s))"
  by (simp add: delete_inventory_def Let_def case_prod_beta sum.case_eq_if option.case_eq_if
      log_extends_refl log_extends_frame log_extends_createActivityLog deleteInventoryItem_logs)

lemma handle_log_extends: "log_extends s (snd (handle schema flt req s))"
  by (cases req)
     (simp_all add: post_inventory_log_extends put_inventory_log_extends
        delete_inventory_log_extends)

lemma log_extends_fresh:
  assumes "logs_fresh s" and "log_extends s s'"
  shows "logs_fresh s'" and "\<forall>k row. activityLogs s k = Some row \<longrightarrow> activityLogs s' k = Some row"
  using assms by (auto simp: logs_fresh_def log_extends_def less_Suc_eq)

lemma logs_fresh_counter: "logs_fresh s \<Longrightarrow> activityLogs s (activityLogIdCounter s) = None"
  by (auto simp: logs_fresh_def)

lemma createInventoryItem_ok:
  assumes "createInventoryItem flt now itemData s = (Inr item, s1)"
  shows "inventoryItems s1 (inventoryItemIdCounter s) = Some item"
    and "activityLogs s1 = activityLogs s"
    and "activityLogIdCounter s1 = activityLogIdCounter s"
  using assms createInventoryItem_logs [of flt now itemData s]
  by (auto simp: createInventoryItem_def generateAssetId_def getCompany_def getDepartment_def
      updateDepartment_def Let_def split: option.splits if_splits)

lemma deleteInventoryItem_ok:
  assumes "deleteInventoryItem flt rid s = (Inr u, s1)"
  shows "inventoryItems s1 rid = None"
    and "activityLogs s1 = activityLogs s"
    and "activityLogIdCounter s1 = activityLogIdCounter s"
  using assms deleteInventoryItem_logs [of flt rid s]
  by (auto simp: deleteInventoryItem_def getDepartment_def updateDepartment_def Let_def
      split: option.splits if_splits)

lemma post_inventory_ok:
  assumes "post_inventory schema flt user req_body now now' s = (Response 201 b, s')"
  shows "\<exists>item row. b = Item item
           \<and> inventoryItems s' (inventoryItemIdCounter s) = Some item
           \<and> activityLogs s' = (activityLogs s)(activityLogIdCounter s \<mapsto> row)
           \<and> l_action row = ''added'' \<and> l_itemId row = i_id item \<and> l_assetId row = i_assetId item
           \<and> l_itemName row = i_name item
           \<and> l_departmentName row = departmentNameOrUnknown (i_departmentId item) s'"
proof -
  from assms obtain itemData where
    r0: "(case createInventoryItem flt now itemData s of
                (Inl e, s1) \<Rightarrow> (Response 500 (Message ''Server error''), s1)
              | (Inr item, s1) \<Rightarrow>
                  (case createActivityLog flt now'
                          \<lparr>nl_action = ''added'', nl_itemId = i_id item,
                           nl_assetId = i_assetId item, nl_itemName = i_name item,
                           nl_departmentName = departmentNameOrUnknown (i_departmentId item) s1,
                           nl_userId = u_id user, nl_userName = u_name user,
                           nl_companyId = u_companyId user\<rparr> s1 of
                     (Inl e, s2) \<Rightarrow> (Response 500 (Message ''Server error''), s2)
                   | (Inr _, s2) \<Rightarrow> (Response 201 (Item item), s2))) = (Response 201 b, s')"
    by (auto simp: post_inventory_def Let_def split: if_splits option.splits)
  obtain r1 s1 where c: "createInventoryItem flt now itemData s = (r1, s1)"
    by (cases "createInventoryItem flt now itemData s")
  from r0 c obtain item where r1: "r1 = Inr item" by (cases r1) auto
  let ?l = "\<lparr>nl_action = ''added'', nl_itemId = i_id item,
             nl_assetId = i_assetId item, nl_itemName = i_name item,
             nl_departmentName = departmentNameOrUnknown (i_departmentId item) s1,
             nl_userId = u_id user, nl_userName = u_name user,
             nl_companyId = u_companyId user\<rparr>"
  obtain r2 s2 where lg: "createActivityLog flt now' ?l s1 = (r2, s2)"
    by (cases "createActivityLog flt now' ?l s1")
  from r0 c r1 lg have b: "b = Item item" and s2: "s' = s2" and ok: "\<exists>row. r2 = Inr row"
    by (auto split: sum.splits)
  from createActivityLog_cases [OF lg] ok obtain row where
    row: "l_action row = ''added''" "l_itemId row = i_id item" "l_assetId row = i_assetId item"
      "l_itemName row = i_name item"
      "l_departmentName row = departmentNameOrUnknown (i_departmentId item) s1"
    and s2': "s2 = s1\<lparr>activityLogIdCounter := activityLogIdCounter s1 + 1,
                      activityLogs := (activityLogs s1)(activityLogIdCounter s1 \<mapsto> row)\<rparr>"
    by auto
  note ci = createInventoryItem_ok [OF c [unfolded r1]]
  have dn: "departmentNameOrUnknown (i_departmentId item) s1
              = departmentNameOrUnknown (i_departmentId item) s'"
    by (rule departmentNameOrUnknown_cong) (simp add: s2 s2')
  show ?thesis
    using b row dn ci by (intro exI [of _ item] exI [of _ row]) (simp add: s2 s2')
qed

lemma delete_inventory_ok:
  assumes "delete_inventory flt user itemId now' s = (Response 200 b, s')"
  shows "\<exists>item row. inventoryItems s itemId = Some item
           \<and> inventoryItems s' itemId = None
           \<and> activityLogs s' = (activityLogs s)(activityLogIdCounter s \<mapsto> row)
           \<and> l_action row = ''removed'' \<and> l_itemId row = itemId \<and> l_assetId row = i_assetId item
           \<and> l_itemName row = i_name item
           \<and> l_departmentName row = departmentNameOrUnknown (i_departmentId item) s"
proof -
  from assms obtain item where e: "inventoryItems s itemId = Some item"
    and c: "i_companyId item = u_companyId user" and a: "u_role user = ''admin''"
    by (auto simp: delete_inventory_def getInventoryItem_def split: option.splits if_splits)
  let ?l = "\<lparr>nl_action = ''removed'', nl_itemId = itemId, nl_assetId = i_assetId item,
             nl_itemName = i_name item,
             nl_departmentName = departmentNameOrUnknown (i_departmentId item) s,
             nl_userId = u_id user, nl_userName = u_name user,
             nl_companyId = u_companyId user\<rparr>"
  have r0: "delete_inventory flt user itemId now' s = (case deleteInventoryItem flt itemId s of
                 (Inl e, s1) \<Rightarrow> (Response 500 (Message ''Server error''), s1)
               | (Inr _, s1) \<Rightarrow>
                   (case createActivityLog flt now' ?l s1 of
                      (Inl e, s2) \<Rightarrow> (Response 500 (Message ''Server error''), s2)
                    | (Inr _, s2) \<Rightarrow>
                        (Response 200 (Message ''Item deleted successfully''), s2)))"
    using e c a by (simp add: delete_inventory_def getInventoryItem_def Let_def)
  obtain r1 s1 where d: "deleteInventoryItem flt itemId s = (r1, s1)"
    by (cases "deleteInventoryItem flt itemId s")
  from assms r0 d obtain u where r1: "r1 = Inr u" by (cases r1) auto
  obtain r2 s2 where lg: "createActivityLog flt now' ?l s1 = (r2, s2)"
    by (cases "createActivityLog flt now' ?l s1")
  from assms r0 d r1 lg have s2: "s' = s2" and ok: "\<exists>row. r2 = Inr row"
    by (auto split: sum.splits)
  from createActivityLog_cases [OF lg] ok obtain row where
    row: "l_action row = ''removed''" "l_itemId row = itemId" "l_assetId row = i_assetId item"
      "l_itemName row = i_name item"
      "l_departmentName row = departmentNameOrUnknown (i_departmentId item) s"
    and s2': "s2 = s1\<lparr>activityLogIdCounter := activityLogIdCounter s1 + 1,
                      activityLogs := (activityLogs s1)(activityLogIdCounter s1 \<mapsto> row)\<rparr>"
    by auto
  note di = deleteInventoryItem_ok [OF d [unfolded r1]]
  show ?thesis
    using e row di by (intro exI [of _ item] exI [of _ row]) (simp add: s2 s2')
qed

lemma demo_stocked_wf: "departments_wf demo_stocked"
  by (simp add: departments_wf_def demo_defs sample_defs)

lemma demo_parse:
  "sample_schema (demo_body\<lparr>p_companyId := Some (u_companyId demo_admin),
                             p_createdBy := Some (u_id demo_admin),
                             p_updatedBy := Some (u_id demo_admin)\<rparr>) = Some (demo_insert 1 ''Saw'')"
  by (simp add: sample_defs demo_defs)

lemma updateInventoryItem_items:
  "inventoryItems s rid = Some item \<Longrightarrow>
   inventoryItems (snd (updateInventoryItem flt now rid data s))
     = (if ItemWrite \<in> flt then inventoryItems s
        else (inventoryItems s)(rid \<mapsto> (merge_item item data)\<lparr>i_updatedAt := now\<rparr>))"
  by (simp add: updateInventoryItem_def Let_def)

lemma put_inventory_items:
  assumes "inventoryItems s itemId = Some item"
  shows "inventoryItems (snd (put_inventory flt user itemId req_body now now' s)) itemId = Some item
       \<or> inventoryItems (snd (put_inventory flt user itemId req_body now now' s)) itemId
           = Some ((merge_item item (req_body\<lparr>p_updatedBy := Some (u_id user)\<rparr>))\<lparr>i_updatedAt := now\<rparr>)"
  using assms
  by (simp add: put_inventory_def getInventoryItem_def case_prod_beta sum.case_eq_if
      createActivityLog_frame updateInventoryItem_items)

lemma demo_stocked_fresh: "logs_fresh demo_stocked"
  by (simp add: logs_fresh_def demo_defs sample_defs)

section \<open>Tenant isolation on update and deletion\<close>

text \<open>
  C6, as stated, fails: an update or deletion aimed at another tenant's item is answered
  with 403 \<^verbatim>\<open>Access denied\<close>, while a missing item is answered with 404
  \<^verbatim>\<open>Item not found\<close>; the two outcomes differ.
\<close>

theorem cross_tenant_distinguishable_counterexample:
  "put_inventory {} demo_outsider 1 empty_patch 20 21 demo_stocked
     = (Response 403 (Message ''Access denied''), demo_stocked)
   \<and> put_inventory {} demo_outsider 99 empty_patch 20 21 demo_stocked
     = (Response 404 (Message ''Item not found''), demo_stocked)
   \<and> delete_inventory {} demo_outsider 1 21 demo_stocked
     = (Response 403 (Message ''Access denied''), demo_stocked)
   \<and> delete_inventory {} demo_outsider 99 21 demo_stocked
     = (Response 404 (Message ''Item not found''), demo_stocked)
   \<and> Response 403 (Message ''Access denied'') \<noteq> Response 404 (Message ''Item not found'')"
  by (simp add: route_defs demo_defs sample_defs)

text \<open>
  C6, amended. An update or deletion of an existing item whose tenant differs from the
  caller's is denied with 403 \<^verbatim>\<open>Access denied\<close> and leaves the store untouched,
  whatever the caller's role, memberships and request body are: the tenant check comes
  before every role-based check.
\<close>

theorem cross_tenant_denied:
  assumes "inventoryItems s itemId = Some existingItem"
    and "i_companyId existingItem \<noteq> u_companyId user"
  shows "put_inventory flt user itemId req_body now now' s
           = (Response 403 (Message ''Access denied''), s)
       \<and> delete_inventory flt user itemId now' s
           = (Response 403 (Message ''Access denied''), s)"
  using assms by (simp add: put_inventory_def delete_inventory_def getInventoryItem_def)

theorem cross_tenant_denied_witness:
  "inventoryItems demo_stocked 1 = Some demo_item
   \<and> i_companyId demo_item \<noteq> u_companyId demo_outsider
   \<and> put_inventory {} demo_outsider 1 empty_patch 20 21 demo_stocked
           = (Response 403 (Message ''Access denied''), demo_stocked)
   \<and> delete_inventory {} (demo_outsider\<lparr>u_role := ''employee''\<rparr>) 1 21 demo_stocked
           = (Response 403 (Message ''Access denied''), demo_stocked)"
proof -
  have h1: "inventoryItems demo_stocked 1 = Some demo_item" by (simp add: sample_defs)
  have h2: "i_companyId demo_item \<noteq> u_companyId demo_outsider" by (simp add: sample_defs)
  have h3: "i_companyId demo_item \<noteq> u_companyId (demo_outsider\<lparr>u_role := ''employee''\<rparr>)"
    by (simp add: sample_defs)
  from cross_tenant_denied [OF h1 h2, where flt = "{}" and req_body = empty_patch and now = 20
      and now' = 21]
    cross_tenant_denied [OF h1 h3, where flt = "{}" and req_body = empty_patch and now = 20
      and now' = 21] h1 h2
  show ?thesis by blast
qed

section \<open>Transfers\<close>

text \<open>
  C5, as stated, fails: an update that moves item 1 from department 1 to department 2
  succeeds, and the counters of both departments are what they were.
\<close>

theorem transfer_not_accounted_counterexample:
  "fst (put_inventory {} demo_admin 1 (empty_patch\<lparr>p_departmentId := Some 2\<rparr>) 20 21 demo_stocked)
     = Response 200 (Item (demo_item\<lparr>i_departmentId := 2, i_updatedBy := 1, i_updatedAt := 20\<rparr>))
   \<and> departments (snd (put_inventory {} demo_admin 1 (empty_patch\<lparr>p_departmentId := Some 2\<rparr>)
                          20 21 demo_stocked))
     = [1 \<mapsto> demo_department 1 ''General'' 1 10, 2 \<mapsto> demo_department 2 ''Tools'' 0 0]"
  by (simp add: route_defs demo_defs sample_defs storage_defs Let_def)

text \<open>
  C5, amended. No update changes any department row, also when it changes the item's
  department id; a successful update with a department id in its body stores the item
  under the new department.
\<close>

theorem update_leaves_departments:
  "departments (snd (updateInventoryItem flt now rid data s)) = departments s
   \<and> departments (snd (put_inventory flt user rid data now now' s)) = departments s
   \<and> (put_inventory flt user rid data now now' s = (Response 200 b, s')
        \<and> p_departmentId data = Some d
      \<longrightarrow> (\<exists>u. b = Item u \<and> inventoryItems s' rid = Some u \<and> i_departmentId u = d))"
proof (intro conjI impI)
  show "departments (snd (updateInventoryItem flt now rid data s)) = departments s"
    by (rule updateInventoryItem_frame)
  show "departments (snd (put_inventory flt user rid data now now' s)) = departments s"
    by (rule put_inventory_departments)
  assume a: "put_inventory flt user rid data now now' s = (Response 200 b, s')
        \<and> p_departmentId data = Some d"
  then have ok: "put_inventory flt user rid data now now' s = (Response 200 b, s')"
    and d: "p_departmentId data = Some d" by blast+
  from put_inventory_ok [OF ok] d
  show "\<exists>u. b = Item u \<and> inventoryItems s' rid = Some u \<and> i_departmentId u = d"
    by (auto simp: merge_item_sel)
qed

theorem update_leaves_departments_witness:
  "put_inventory {} demo_admin 1 (empty_patch\<lparr>p_departmentId := Some 2\<rparr>) 20 21 demo_stocked
     = (Response 200 (Item (demo_item\<lparr>i_departmentId := 2, i_updatedBy := 1, i_updatedAt := 20\<rparr>)),
        snd (put_inventory {} demo_admin 1 (empty_patch\<lparr>p_departmentId := Some 2\<rparr>) 20 21
               demo_stocked))
   \<and> departments (snd (put_inventory {} demo_admin 1 (empty_patch\<lparr>p_departmentId := Some 2\<rparr>)
                          20 21 demo_stocked)) = departments demo_stocked
   \<and> (\<exists>u. inventoryItems (snd (put_inventory {} demo_admin 1
                (empty_patch\<lparr>p_departmentId := Some 2\<rparr>) 20 21 demo_stocked)) 1 = Some u
          \<and> i_departmentId u = 2)"
proof -
  let ?r = "put_inventory {} demo_admin 1 (empty_patch\<lparr>p_departmentId := Some 2\<rparr>) 20 21 demo_stocked"
  have f: "fst ?r = Response 200 (Item (demo_item\<lparr>i_departmentId := 2, i_updatedBy := 1, i_updatedAt := 20\<rparr>))"
    by (simp add: eval_defs)
  then have e: "?r = (Response 200 (Item (demo_item\<lparr>i_departmentId := 2, i_updatedBy := 1, i_updatedAt := 20\<rparr>)), snd ?r)"
    by (cases ?r) simp
  have p: "p_departmentId (empty_patch\<lparr>p_departmentId := Some 2\<rparr>) = Some 2" by simp
  from update_leaves_departments [where flt = "{}" and user = demo_admin and rid = 1
      and data = "empty_patch\<lparr>p_departmentId := Some 2\<rparr>" and now = 20 and now' = 21
      and s = demo_stocked and s' = "snd ?r" and d = 2
      and b = "Item (demo_item\<lparr>i_departmentId := 2, i_updatedBy := 1, i_updatedAt := 20\<rparr>)"]
    e p
  show ?thesis by blast
qed

section \<open>Atomicity\<close>




section \<open>Asset ids under update\<close>

text \<open>
  C9, as stated, fails: the update route passes the request body to the store as it is,
  and a body with an \<^verbatim>\<open>assetId\<close> key replaces the asset id the item got at creation.
\<close>

theorem assetId_overwritten_counterexample:
  "fst (createInventoryItem {} 10 (demo_insert 1 ''Drill'')
         (snd (createDepartment 0 \<lparr>nd_name = ''Tools'', nd_companyId = 1\<rparr>
                (demo_storage ''A-####'' 1)))) = Inr demo_item
   \<and> i_assetId demo_item = ''A-0001''
   \<and> inventoryItems demo_stocked 1 = Some demo_item
   \<and> fst (put_inventory {} demo_admin 1 (empty_patch\<lparr>p_assetId := Some ''B-9999''\<rparr>) 20 21
            demo_stocked)
       = Response 200 (Item (demo_item\<lparr>i_assetId := ''B-9999'', i_updatedBy := 1, i_updatedAt := 20\<rparr>))
   \<and> inventoryItems
        (snd (put_inventory {} demo_admin 1 (empty_patch\<lparr>p_assetId := Some ''B-9999''\<rparr>) 20 21
               demo_stocked)) 1
       = Some (demo_item\<lparr>i_assetId := ''B-9999'', i_updatedBy := 1, i_updatedAt := 20\<rparr>)"
  by (simp add: eval_defs createDepartment_def)

text \<open>
  C9, amended. An update request whose body has no \<^verbatim>\<open>assetId\<close> key leaves the
  item's asset id as it was, whatever the outcome of the request; a successful update
  whose body has the key stores the body's value.
\<close>

theorem assetId_kept_without_key:
  assumes "inventoryItems s itemId = Some item"
  shows "(p_assetId req_body = None
          \<longrightarrow> (\<exists>u. inventoryItems (snd (put_inventory flt user itemId req_body now now' s)) itemId
                     = Some u \<and> i_assetId u = i_assetId item))
       \<and> (p_assetId req_body = Some a
            \<and> put_inventory flt user itemId req_body now now' s = (Response 200 b, s')
          \<longrightarrow> (\<exists>u. b = Item u \<and> inventoryItems s' itemId = Some u \<and> i_assetId u = a))"
proof (intro conjI impI)
  assume "p_assetId req_body = None"
  with put_inventory_items [OF assms, of flt user req_body now now']
  show "\<exists>u. inventoryItems (snd (put_inventory flt user itemId req_body now now' s)) itemId
               = Some u \<and> i_assetId u = i_assetId item"
    by (auto simp: merge_item_sel)
next
  assume a: "p_assetId req_body = Some a
            \<and> put_inventory flt user itemId req_body now now' s = (Response 200 b, s')"
  then have ok: "put_inventory flt user itemId req_body now now' s = (Response 200 b, s')"
    and k: "p_assetId req_body = Some a" by blast+
  from put_inventory_ok [OF ok] k
  show "\<exists>u. b = Item u \<and> inventoryItems s' itemId = Some u \<and> i_assetId u = a"
    by (auto simp: merge_item_sel)
qed

theorem assetId_kept_without_key_witness:
  "inventoryItems demo_stocked 1 = Some demo_item
   \<and> (\<exists>u. inventoryItems (snd (put_inventory {} demo_admin 1
               (empty_patch\<lparr>p_name := Some ''Hammer drill''\<rparr>) 20 21 demo_stocked)) 1 = Some u
          \<and> i_assetId u = ''A-0001'')
   \<and> inventoryItems (snd (put_inventory {} demo_admin 1
               (empty_patch\<lparr>p_name := Some ''Hammer drill''\<rparr>) 20 21 demo_stocked)) 1
       = Some (demo_item\<lparr>i_name := ''Hammer drill'', i_updatedBy := 1, i_updatedAt := 20\<rparr>)"
proof -
  have h: "inventoryItems demo_stocked 1 = Some demo_item" by (simp add: sample_defs)
  have n: "p_assetId (empty_patch\<lparr>p_name := Some ''Hammer drill''\<rparr>) = None"
    by (simp add: empty_patch_def)
  have a: "i_assetId demo_item = ''A-0001''" by (simp add: demo_item_def)
  have e: "inventoryItems (snd (put_inventory {} demo_admin 1
               (empty_patch\<lparr>p_name := Some ''Hammer drill''\<rparr>) 20 21 demo_stocked)) 1
       = Some (demo_item\<lparr>i_name := ''Hammer drill'', i_updatedBy := 1, i_updatedAt := 20\<rparr>)"
    by (simp add: eval_defs)
  from assetId_kept_without_key [OF h, where req_body = "empty_patch\<lparr>p_name := Some ''Hammer drill''\<rparr>"
      and flt = "{}" and user = demo_admin and now = 20 and now' = 21] n a h e
  show ?thesis by metis
qed

section \<open>Activity log\<close>

lemma demo_unnamed_reached:
  "snd (createInventoryItem {} 10 (demo_insert 1 ''Drill'')
         (snd (createDepartment 0 \<lparr>nd_name = [], nd_companyId = 1\<rparr>
                (demo_storage ''A-####'' 1)))) = demo_unnamed"
  by (auto simp add: demo_defs sample_defs demo_unnamed_def storage_defs createDepartment_def
      formatAssetId_def padStart_def toString.simps digit_char_def Let_def fun_eq_iff)


lemma post_inventory_succeeds:
  assumes "u_role user = ''admin''
      \<or> list_ex (\<lambda>ud. Some (ud_departmentId ud) = p_departmentId req_body)
           (getUserDepartments (u_id user) s)"
    and "p_departmentId req_body \<noteq> None" and "p_departmentId req_body \<noteq> Some 0"
    and "schema (req_body\<lparr>p_companyId := Some (u_companyId user),
                          p_createdBy := Some (u_id user),
                          p_updatedBy := Some (u_id user)\<rparr>) = Some itemData"
    and "companies s (n_companyId itemData) = Some co"
    and "departments_wf s"
  shows "\<exists>item. fst (post_inventory schema {} user req_body now now' s) = Response 201 (Item item)"
  using post_inventory_writes [where schema = schema and req_body = req_body and user = user
      and itemData = itemData and s = s and co = co and flt = "{}" and now = now and now' = now',
      OF assms]
  by simp

lemma put_inventory_succeeds:
  assumes "u_role user = ''admin''
      \<or> list_ex (\<lambda>ud. ud_departmentId ud = i_departmentId existingItem)
           (getUserDepartments (u_id user) s)"
    and "inventoryItems s itemId = Some existingItem"
    and "i_companyId existingItem = u_companyId user"
  shows "\<exists>item. fst (put_inventory {} user itemId req_body now now' s) = Response 200 (Item item)"
  using put_inventory_writes [OF assms, of "{}" req_body now now'] by simp

lemma delete_inventory_succeeds:
  assumes "u_role user = ''admin''"
    and "inventoryItems s itemId = Some existingItem"
    and "i_companyId existingItem = u_companyId user"
    and "departments_wf s"
  shows "fst (delete_inventory {} user itemId now' s)
           = Response 200 (Message ''Item deleted successfully'')"
  using delete_inventory_writes [OF assms, of "{}" now'] by simp

text \<open>
  C8, as stated, fails: an item created in a department whose name is the empty string
  gets a log row whose department name is \<^verbatim>\<open>Unknown\<close>, which is not the name of the
  item's department.
\<close>

theorem department_name_placeholder_counterexample:
  "fst (post_inventory sample_schema {} demo_admin demo_unnamed_body 20 21 demo_unnamed)
     = Response 201 (Item (demo_saw\<lparr>i_departmentId := 2\<rparr>))
   \<and> departments
        (snd (post_inventory sample_schema {} demo_admin demo_unnamed_body 20 21 demo_unnamed)) 2
     = Some (demo_department 2 [] 1 10)
   \<and> d_name (demo_department 2 [] 1 10) = []
   \<and> activityLogs
        (snd (post_inventory sample_schema {} demo_admin demo_unnamed_body 20 21 demo_unnamed)) 1
     = Some (demo_log\<lparr>l_departmentName := ''Unknown''\<rparr>)
   \<and> l_departmentName (demo_log\<lparr>l_departmentName := ''Unknown''\<rparr>)
     \<noteq> d_name (demo_department 2 [] 1 10)"
  by (simp add: eval_defs demo_unnamed_def demo_unnamed_body_def demo_log_def)

text \<open>
  C8, amended. A successful creation, update or deletion adds exactly one row to the
  activity table, under a fresh id, with the action \<^verbatim>\<open>added\<close>, \<^verbatim>\<open>updated\<close> or
  \<^verbatim>\<open>removed\<close>. The row carries the asset id and name of the item as that request
  left it (for a deletion: as it was just before), and as department name the name of the
  item's department at that moment, or \<^verbatim>\<open>Unknown\<close> when that department is missing
  or its name is empty. A request of a caller who passes the access checks, on a store
  that rejects no write, succeeds. No request changes a row that is already in the table.
\<close>

theorem activity_log_rows:
  assumes "logs_fresh s"
  shows "(post_inventory schema flt user req_body now now' s = (Response 201 b, s')
          \<longrightarrow> (\<exists>item row. b = Item item
                 \<and> inventoryItems s' (inventoryItemIdCounter s) = Some item
                 \<and> activityLogs s (activityLogIdCounter s) = None
                 \<and> activityLogs s' = (activityLogs s)(activityLogIdCounter s \<mapsto> row)
                 \<and> l_action row = ''added'' \<and> l_itemId row = i_id item
                 \<and> l_assetId row = i_assetId item \<and> l_itemName row = i_name item
                 \<and> l_departmentName row
                     = (case departments s' (i_departmentId item) of
                          None \<Rightarrow> ''Unknown''
                        | Some dep \<Rightarrow> if d_name dep = [] then ''Unknown'' else d_name dep)))
       \<and> (put_inventory flt user itemId req_body now now' s = (Response 200 b, s')
          \<longrightarrow> (\<exists>item row. b = Item item
                 \<and> (p_id req_body = None \<longrightarrow> inventoryItems s' itemId = Some item)
                 \<and> activityLogs s (activityLogIdCounter s) = None
                 \<and> activityLogs s' = (activityLogs s)(activityLogIdCounter s \<mapsto> row)
                 \<and> l_action row = ''updated'' \<and> l_itemId row = i_id item
                 \<and> l_assetId row = i_assetId item \<and> l_itemName row = i_name item
                 \<and> l_departmentName row
                     = (case departments s' (i_departmentId item) of
                          None \<Rightarrow> ''Unknown''
                        | Some dep \<Rightarrow> if d_name dep = [] then ''Unknown'' else d_name dep)))
       \<and> (delete_inventory flt user itemId now' s = (Response 200 b, s')
          \<longrightarrow> (\<exists>item row. inventoryItems s itemId = Some item
                 \<and> inventoryItems s' itemId = None
                 \<and> activityLogs s (activityLogIdCounter s) = None
                 \<and> activityLogs s' = (activityLogs s)(activityLogIdCounter s \<mapsto> row)
                 \<and> l_action row = ''removed'' \<and> l_itemId row = itemId
                 \<and> l_assetId row = i_assetId item \<and> l_itemName row = i_name item
                 \<and> l_departmentName row
                     = (case departments s (i_departmentId item) of
                          None \<Rightarrow> ''Unknown''
                        | Some dep \<Rightarrow> if d_name dep = [] then ''Unknown'' else d_name dep)))
       \<and> ((u_role user = ''admin''
             \<or> list_ex (\<lambda>ud. Some (ud_departmentId ud) = p_departmentId req_body)
                  (getUserDepartments (u_id user) s))
            \<and> p_departmentId req_body \<noteq> None \<and> p_departmentId req_body \<noteq> Some 0
            \<and> schema (req_body\<lparr>p_companyId := Some (u_companyId user),
                                  p_createdBy := Some (u_id user),
                                  p_updatedBy := Some (u_id user)\<rparr>) = Some itemData
            \<and> companies s (n_companyId itemData) = Some co \<and> departments_wf s
          \<longrightarrow> (\<exists>item. fst (post_inventory schema {} user req_body now now' s)
                         = Response 201 (Item item)))
       \<and> ((u_role user = ''admin''
             \<or> list_ex (\<lambda>ud. ud_departmentId ud = i_departmentId existingItem)
                  (getUserDepartments (u_id user) s))
            \<and> inventoryItems s itemId = Some existingItem
            \<and> i_companyId existingItem = u_companyId user
          \<longrightarrow> (\<exists>item. fst (put_inventory {} user itemId req_body now now' s)
                         = Response 200 (Item item)))
       \<and> (u_role user = ''admin''
            \<and> inventoryItems s itemId = Some existingItem
            \<and> i_companyId existingItem = u_companyId user \<and> departments_wf s
          \<longrightarrow> fst (delete_inventory {} user itemId now' s)
                = Response 200 (Message ''Item deleted successfully''))
       \<and> logs_fresh (snd (handle schema flt req s))
       \<and> (\<forall>k row. activityLogs s k = Some row
                   \<longrightarrow> activityLogs (snd (handle schema flt req s)) k = Some row)"
proof (intro conjI impI)
  note fresh = logs_fresh_counter [OF assms]
  {
    assume "post_inventory schema flt user req_body now now' s = (Response 201 b, s')"
    from post_inventory_ok [OF this] fresh
    show "\<exists>item row. b = Item item
                 \<and> inventoryItems s' (inventoryItemIdCounter s) = Some item
                 \<and> activityLogs s (activityLogIdCounter s) = None
                 \<and> activityLogs s' = (activityLogs s)(activityLogIdCounter s \<mapsto> row)
                 \<and> l_action row = ''added'' \<and> l_itemId row = i_id item
                 \<and> l_assetId row = i_assetId item \<and> l_itemName row = i_name item
                 \<and> l_departmentName row
                     = (case departments s' (i_departmentId item) of
                          None \<Rightarrow> ''Unknown''
                        | Some dep \<Rightarrow> if d_name dep = [] then ''Unknown'' else d_name dep)"
      unfolding departmentNameOrUnknown_eq by blast
  }
  {
    assume "put_inventory flt user itemId req_body now now' s = (Response 200 b, s')"
    from put_inventory_ok [OF this] obtain existing u row where
      f: "b = Item u" "inventoryItems s' = (inventoryItems s)(itemId \<mapsto> u)"
        "activityLogs s' = (activityLogs s)(activityLogIdCounter s \<mapsto> row)"
        "l_action row = ''updated''" "l_itemId row = i_id u" "l_assetId row = i_assetId u"
        "l_itemName row = i_name u"
        "l_departmentName row = departmentNameOrUnknown (i_departmentId u) s'"
      by blast
    with fresh
    show "\<exists>item row. b = Item item
                 \<and> (p_id req_body = None \<longrightarrow> inventoryItems s' itemId = Some item)
                 \<and> activityLogs s (activityLogIdCounter s) = None
                 \<and> activityLogs s' = (activityLogs s)(activityLogIdCounter s \<mapsto> row)
                 \<and> l_action row = ''updated'' \<and> l_itemId row = i_id item
                 \<and> l_assetId row = i_assetId item \<and> l_itemName row = i_name item
                 \<and> l_departmentName row
                     = (case departments s' (i_departmentId item) of
                          None \<Rightarrow> ''Unknown''
                        | Some dep \<Rightarrow> if d_name dep = [] then ''Unknown'' else d_name dep)"
      unfolding departmentNameOrUnknown_eq by (intro exI [of _ u] exI [of _ row]) simp
  }
  {
    assume "delete_inventory flt user itemId now' s = (Response 200 b, s')"
    from delete_inventory_ok [OF this] fresh
    show "\<exists>item row. inventoryItems s itemId = Some item
                 \<and> inventoryItems s' itemId = None
                 \<and> activityLogs s (activityLogIdCounter s) = None
                 \<and> activityLogs s' = (activityLogs s)(activityLogIdCounter s \<mapsto> row)
                 \<and> l_action row = ''removed'' \<and> l_itemId row = itemId
                 \<and> l_assetId row = i_assetId item \<and> l_itemName row = i_name item
                 \<and> l_departmentName row
                     = (case departments s (i_departmentId item) of
                          None \<Rightarrow> ''Unknown''
                        | Some dep \<Rightarrow> if d_name dep = [] then ''Unknown'' else d_name dep)"
      unfolding departmentNameOrUnknown_eq by blast
  }
  {
    assume a: "(u_role user = ''admin''
             \<or> list_ex (\<lambda>ud. Some (ud_departmentId ud) = p_departmentId req_body)
                  (getUserDepartments (u_id user) s))
            \<and> p_departmentId req_body \<noteq> None \<and> p_departmentId req_body \<noteq> Some 0
            \<and> schema (req_body\<lparr>p_companyId := Some (u_companyId user),
                                  p_createdBy := Some (u_id user),
                                  p_updatedBy := Some (u_id user)\<rparr>) = Some itemData
            \<and> companies s (n_companyId itemData) = Some co \<and> departments_wf s"
    then have a1: "u_role user = ''admin''
             \<or> list_ex (\<lambda>ud. Some (ud_departmentId ud) = p_departmentId req_body)
                  (getUserDepartments (u_id user) s)"
      and a2: "p_departmentId req_body \<noteq> None" and a3: "p_departmentId req_body \<noteq> Some 0"
      and a4: "schema (req_body\<lparr>p_companyId := Some (u_companyId user),
                                  p_createdBy := Some (u_id user),
                                  p_updatedBy := Some (u_id user)\<rparr>) = Some itemData"
      and a5: "companies s (n_companyId itemData) = Some co" and a6: "departments_wf s"
      by blast+
    show "\<exists>item. fst (post_inventory schema {} user req_body now now' s)
                         = Response 201 (Item item)"
      by (rule post_inventory_succeeds [where schema = schema and itemData = itemData
            and co = co, OF a1 a2 a3 a4 a5 a6])
  }
  {
    assume a: "(u_role user = ''admin''
             \<or> list_ex (\<lambda>ud. ud_departmentId ud = i_departmentId existingItem)
                  (getUserDepartments (u_id user) s))
            \<and> inventoryItems s itemId = Some existingItem
            \<and> i_companyId existingItem = u_companyId user"
    then have a1: "u_role user = ''admin''
             \<or> list_ex (\<lambda>ud. ud_departmentId ud = i_departmentId existingItem)
                  (getUserDepartments (u_id user) s)"
      and a2: "inventoryItems s itemId = Some existingItem"
      and a3: "i_companyId existingItem = u_companyId user" by blast+
    show "\<exists>item. fst (put_inventory {} user itemId req_body now now' s)
                         = Response 200 (Item item)"
      by (rule put_inventory_succeeds [OF a1 a2 a3])
  }
  {
    assume a: "u_role user = ''admin''
            \<and> inventoryItems s itemId = Some existingItem
            \<and> i_companyId existingItem = u_companyId user \<and> departments_wf s"
    then have a1: "u_role user = ''admin''"
      and a2: "inventoryItems s itemId = Some existingItem"
      and a3: "i_companyId existingItem = u_companyId user" and a4: "departments_wf s"
      by blast+
    show "fst (delete_inventory {} user itemId now' s)
                = Response 200 (Message ''Item deleted successfully'')"
      by (rule delete_inventory_succeeds [OF a1 a2 a3 a4])
  }
  from log_extends_fresh [OF assms handle_log_extends, of schema flt req]
  show "logs_fresh (snd (handle schema flt req s))"
    and "\<forall>k row. activityLogs s k = Some row
                   \<longrightarrow> activityLogs (snd (handle schema flt req s)) k = Some row"
    by blast+
qed



theorem activity_log_rows_witness:
  "logs_fresh demo_stocked
   \<and> (\<exists>item. fst (post_inventory sample_schema {} demo_admin demo_body 20 21 demo_stocked)
          = Response 201 (Item item))
   \<and> activityLogs (snd (post_inventory sample_schema {} demo_admin demo_body 20 21 demo_stocked))
       = [1 \<mapsto> demo_log]
   \<and> (\<exists>item. fst (put_inventory {} demo_admin 1 demo_rename 20 21 demo_stocked)
          = Response 200 (Item item))
   \<and> activityLogs (snd (put_inventory {} demo_admin 1 demo_rename 20 21 demo_stocked))
       = [1 \<mapsto> demo_log\<lparr>l_action := ''updated'', l_itemId := 1, l_assetId := ''A-0001'',
                          l_itemName := ''Hammer drill''\<rparr>]
   \<and> fst (delete_inventory {} demo_admin 1 21 demo_stocked)
       = Response 200 (Message ''Item deleted successfully'')
   \<and> inventoryItems (snd (delete_inventory {} demo_admin 1 21 demo_stocked)) 1 = None
   \<and> activityLogs (snd (delete_inventory {} demo_admin 1 21 demo_stocked))
       = [1 \<mapsto> demo_log\<lparr>l_action := ''removed'', l_itemId := 1, l_assetId := ''A-0001'',
                          l_itemName := ''Drill''\<rparr>]"
proof -
  have adm: "u_role demo_admin = ''admin''" by (simp add: sample_defs)
  have h3: "p_departmentId demo_body \<noteq> None" "p_departmentId demo_body \<noteq> Some 0"
    by (simp_all add: sample_defs)
  have h6: "companies demo_stocked (n_companyId (demo_insert 1 ''Saw''))
              = Some (demo_company ''A-####'' 2)"
    by (simp add: sample_defs demo_defs)
  have h7: "inventoryItems demo_stocked 1 = Some demo_item" by (simp add: sample_defs)
  have h8: "i_companyId demo_item = u_companyId demo_admin" by (simp add: sample_defs)
  note t = activity_log_rows [OF demo_stocked_fresh, where schema = sample_schema
      and user = demo_admin and itemData = "demo_insert 1 ''Saw''"
      and co = "demo_company ''A-####'' 2" and itemId = 1 and existingItem = demo_item
      and now = 20 and now' = 21]
  have p: "\<exists>item. fst (post_inventory sample_schema {} demo_admin demo_body 20 21 demo_stocked)
          = Response 201 (Item item)"
    using t [where req_body = demo_body] adm h3 demo_parse h6 demo_stocked_wf by blast
  have u: "\<exists>item. fst (put_inventory {} demo_admin 1 demo_rename 20 21 demo_stocked)
          = Response 200 (Item item)"
    using t [where req_body = demo_rename] adm h7 h8 by blast
  have d: "fst (delete_inventory {} demo_admin 1 21 demo_stocked)
       = Response 200 (Message ''Item deleted successfully'')"
    using t [where req_body = demo_body] adm h7 h8 demo_stocked_wf by blast
  have e1: "activityLogs (snd (post_inventory sample_schema {} demo_admin demo_body 20 21 demo_stocked))
       = [1 \<mapsto> demo_log]"
    by (simp add: eval_defs demo_log_def)
  have e2: "activityLogs (snd (put_inventory {} demo_admin 1 demo_rename 20 21 demo_stocked))
       = [1 \<mapsto> demo_log\<lparr>l_action := ''updated'', l_itemId := 1, l_assetId := ''A-0001'',
                          l_itemName := ''Hammer drill''\<rparr>]"
    by (simp add: eval_defs demo_log_def demo_rename_def)
  have e3: "inventoryItems (snd (delete_inventory {} demo_admin 1 21 demo_stocked)) 1 = None"
    "activityLogs (snd (delete_inventory {} demo_admin 1 21 demo_stocked))
       = [1 \<mapsto> demo_log\<lparr>l_action := ''removed'', l_itemId := 1, l_assetId := ''A-0001'',
                          l_itemName := ''Drill''\<rparr>]"
    by (simp_all add: eval_defs demo_log_def)
  show ?thesis using demo_stocked_fresh p u d e1 e2 e3 by blast
qed

end
